theory Spec2Isabelle
  imports Complex_Main "HOL-Library.Word" "HOL-Library.Multiset"
begin

section \<open>Query optimizer and executor: a shallow embedding\<close>

text \<open>
  The C++ sources are embedded as follows.
  \<^item> \<open>size_t\<close> is a 64-bit word: products and sums of tuple counts wrap around.
  \<^item> \<open>double\<close> is idealised as \<open>real\<close>: cost arithmetic is exact, \<open>std::log2\<close> is
    \<open>log 2\<close>, and \<open>static_cast<size_t>\<close> of a non-negative double is the floor. A strict
    comparison of costs is stated with a margin and a bound on the totals wherever the
    rounding of binary64 could otherwise decide it.
  \<^item> the \<open>int\<close> values stored in rows are only compared, never computed with, so they
    are \<open>int\<close>; \<open>std::stoi\<close> checks the 32-bit range explicitly.
  \<^item> \<open>std::any\<close> holding an \<open>int\<close> or a \<open>std::string\<close> is a two-constructor datatype,
    and a failing \<open>any_cast\<close> or range check is \<open>None\<close>.
  \<^item> exceptions that leave \<open>Executor::execute\<close> are values of the type \<open>error\<close>.
\<close>

subsection \<open>Strings: \<open>std::string::find\<close>, \<open>substr\<close>, \<open>std::to_string\<close>, \<open>std::stoi\<close>\<close>

fun starts_with :: "string \<Rightarrow> string \<Rightarrow> bool" where
  "starts_with [] s = True"
| "starts_with (p # ps) [] = False"
| "starts_with (p # ps) (c # cs) = (p = c \<and> starts_with ps cs)"

text \<open>\<open>s.find(pat)\<close>: the first position at which \<open>pat\<close> occurs, \<open>None\<close> for \<open>npos\<close>.\<close>

fun str_find :: "string \<Rightarrow> string \<Rightarrow> nat option" where
  "str_find pat [] = (if pat = [] then Some 0 else None)"
| "str_find pat (c # cs) =
     (if starts_with pat (c # cs) then Some 0 else map_option Suc (str_find pat cs))"

definition str_contains :: "string \<Rightarrow> string \<Rightarrow> bool" where
  "str_contains pat s = (str_find pat s \<noteq> None)"

text \<open>\<open>s.substr(pos)\<close> for \<open>pos \<le> s.size()\<close>.\<close>

definition substr :: "string \<Rightarrow> nat \<Rightarrow> string" where
  "substr s pos = drop pos s"

fun string_of_nat :: "nat \<Rightarrow> string" where
  "string_of_nat n =
     (if n < 10 then [char_of (48 + n)]
      else string_of_nat (n div 10) @ [char_of (48 + n mod 10)])"

declare string_of_nat.simps [simp del]

definition to_string :: "int \<Rightarrow> string" where
  "to_string i = (if i < 0 then CHR ''-'' # string_of_nat (nat (- i)) else string_of_nat (nat i))"

definition isspace :: "char \<Rightarrow> bool" where
  "isspace c = (c = CHR '' '' \<or> (9 \<le> (of_char c :: nat) \<and> (of_char c :: nat) \<le> 13))"

definition isdigit :: "char \<Rightarrow> bool" where
  "isdigit c = (48 \<le> (of_char c :: nat) \<and> (of_char c :: nat) \<le> 57)"

definition digits_value :: "string \<Rightarrow> int" where
  "digits_value ds = foldl (\<lambda>acc c. 10 * acc + (int (of_char c) - 48)) 0 ds"

text \<open>
  \<open>std::stoi(s)\<close>: leading white space is skipped, one sign is accepted, the longest run
  of decimal digits is converted and the rest of the string is ignored. No digit
  (\<open>std::invalid_argument\<close>) and a value outside the range of \<open>int\<close>
  (\<open>std::out_of_range\<close>) are both \<open>None\<close>.
\<close>

definition stoi :: "string \<Rightarrow> int option" where
  "stoi s =
     (let s1 = dropWhile isspace s;
          neg = (s1 \<noteq> [] \<and> hd s1 = CHR ''-'');
          s2 = (if s1 \<noteq> [] \<and> (hd s1 = CHR ''-'' \<or> hd s1 = CHR ''+'') then tl s1 else s1);
          ds = takeWhile isdigit s2;
          v = (if neg then - digits_value ds else digits_value ds)
      in if ds = [] then None
         else if v < - 2147483648 \<or> 2147483647 < v then None
         else Some v)"

subsection \<open>Machine numbers\<close>

type_synonym size_t = "64 word"

text \<open>Conversion of a \<open>size_t\<close> to \<open>double\<close>, and \<open>static_cast<size_t>\<close> of a double.\<close>

definition to_double :: "size_t \<Rightarrow> real" where
  "to_double n = real (unat n)"

definition to_size_t :: "real \<Rightarrow> size_t" where
  "to_size_t x = of_nat (nat \<lfloor>x\<rfloor>)"

subsection \<open>The abstract syntax tree (ast.h)\<close>

datatype binary_operator =
  EQUALS | NOT_EQUALS | GREATER | LESS | GREATER_EQUAL | LESS_EQUAL | OP_AND | OP_OR

text \<open>
  \<open>OtherExpression\<close> stands for an \<open>Expression\<close> whose tag is \<open>FUNCTION_CALL\<close>, for which
  the sources have no subclass.
\<close>

datatype expression =
    ColumnExpression string string
  | LiteralExpression string
  | BinaryOpExpression expression expression binary_operator
  | OtherExpression

datatype select_item = SelectItem (item_expression: expression) (item_alias: string)

datatype table_reference = TableReference (ref_table_name: string) (ref_alias: string)

datatype join_clause_type = JC_INNER | JC_LEFT | JC_RIGHT

datatype join_clause =
  JoinClause (clause_type: join_clause_type) (clause_table: table_reference)
    (clause_condition: expression)

record select_statement =
  select_list :: "select_item list"
  from_table :: table_reference
  joins :: "join_clause list"
  where_clause :: "expression option"

subsection \<open>Plan nodes (query_plan.h)\<close>

record statistics =
  row_count :: size_t
  page_count :: size_t
  selectivity :: real

definition Statistics :: "size_t \<Rightarrow> size_t \<Rightarrow> real \<Rightarrow> statistics" where
  "Statistics rs ps sel = \<lparr>row_count = rs, page_count = ps, selectivity = sel\<rparr>"

record cost_estimate =
  io_cost :: real
  cpu_cost :: real
  total_cost :: real

text \<open>The only constructor of \<open>CostEstimate\<close>: the total is computed from the two parts.\<close>

definition CostEstimate :: "real \<Rightarrow> real \<Rightarrow> cost_estimate" where
  "CostEstimate io cpu = \<lparr>io_cost = io, cpu_cost = cpu, total_cost = io + cpu\<rparr>"

datatype plan_node_type =
  TABLE_SCAN | INDEX_SCAN | FILTER | PROJECT | NESTED_LOOP_JOIN | HASH_JOIN
  | SORT_MERGE_JOIN | SORT | AGGREGATE

datatype column = Column (col_table: string) (col_name: string) (col_type: string)

type_synonym schema = "column list"

datatype join_type = INNER | LEFT_OUTER | RIGHT_OUTER | FULL_OUTER

text \<open>
  The six concrete subclasses of \<open>PlanNode\<close> with their own fields; the constructor of
  each subclass fixes the \<open>type\<close> tag, which \<open>node_type\<close> reads back.
\<close>

datatype node_data =
    TableScanNode string string
  | FilterNode string
  | ProjectNode "string list"
  | NestedLoopJoinNode join_type string
  | HashJoinNode join_type string
  | SortMergeJoinNode join_type string

datatype plan_node =
  PlanNode (node: node_data) (output_schema: schema) (stats: statistics)
    (cost: cost_estimate) (children: "plan_node list")

fun node_type :: "node_data \<Rightarrow> plan_node_type" where
  "node_type (TableScanNode t a) = TABLE_SCAN"
| "node_type (FilterNode c) = FILTER"
| "node_type (ProjectNode ps) = PROJECT"
| "node_type (NestedLoopJoinNode jt c) = NESTED_LOOP_JOIN"
| "node_type (HashJoinNode jt c) = HASH_JOIN"
| "node_type (SortMergeJoinNode jt c) = SORT_MERGE_JOIN"

text \<open>A node as its subclass constructor leaves it: no column, default statistics and cost.\<close>

definition new_node :: "node_data \<Rightarrow> plan_node" where
  "new_node d = PlanNode d [] (Statistics 0 0 1) (CostEstimate 0 0) []"

definition set_cost :: "cost_estimate \<Rightarrow> plan_node \<Rightarrow> plan_node" where
  "set_cost c p = PlanNode (node p) (output_schema p) (stats p) c (children p)"

subsection \<open>The cost model (cost_model.h, cost_model.cpp)\<close>

definition SEQUENTIAL_IO_COST :: real where "SEQUENTIAL_IO_COST = 1"
definition RANDOM_IO_COST :: real where "RANDOM_IO_COST = 4"
definition CPU_TUPLE_COST :: real where "CPU_TUPLE_COST = 1 / 100"
definition CPU_OPERATOR_COST :: real where "CPU_OPERATOR_COST = 25 / 10000"
definition MEMORY_SORT_COST :: real where "MEMORY_SORT_COST = 2"
definition HASH_BUILD_COST :: real where "HASH_BUILD_COST = 1"
definition HASH_PROBE_COST :: real where "HASH_PROBE_COST = 1 / 2"

lemmas cost_constants =
  SEQUENTIAL_IO_COST_def RANDOM_IO_COST_def CPU_TUPLE_COST_def CPU_OPERATOR_COST_def
  MEMORY_SORT_COST_def HASH_BUILD_COST_def HASH_PROBE_COST_def

record table_statistics =
  tuple_count :: size_t
  tpage_count :: size_t
  tuple_width :: size_t
  column_selectivity :: "string \<rightharpoonup> real"
  distinct_values :: "string \<rightharpoonup> size_t"

definition TableStatistics :: "size_t \<Rightarrow> size_t \<Rightarrow> size_t \<Rightarrow> table_statistics" where
  "TableStatistics tuples pages width =
     \<lparr>tuple_count = tuples, tpage_count = pages, tuple_width = width,
      column_selectivity = Map.empty, distinct_values = Map.empty\<rparr>"

text \<open>The state of a \<open>CostModel\<close> is its \<open>table_stats\<close> map.\<close>

type_synonym cost_model = "string \<rightharpoonup> table_statistics"

definition users_stats :: table_statistics where
  "users_stats = (TableStatistics 1000 10 120)
     \<lparr>column_selectivity := [''age > 25'' \<mapsto> 88 / 100, ''age < 30'' \<mapsto> 20 / 100],
      distinct_values := [''id'' \<mapsto> 1000, ''age'' \<mapsto> 50, ''city'' \<mapsto> 10]\<rparr>"

definition orders_stats :: table_statistics where
  "orders_stats = (TableStatistics 5000 50 80)
     \<lparr>column_selectivity := [''amount > 100'' \<mapsto> 30 / 100],
      distinct_values := [''id'' \<mapsto> 5000, ''user_id'' \<mapsto> 1000, ''product'' \<mapsto> 100]\<rparr>"

text \<open>The constructor \<open>CostModel::CostModel()\<close>.\<close>

definition CostModel :: cost_model where
  "CostModel = [''users'' \<mapsto> users_stats, ''orders'' \<mapsto> orders_stats]"

definition set_table_statistics :: "string \<Rightarrow> table_statistics \<Rightarrow> cost_model \<Rightarrow> cost_model" where
  "set_table_statistics table_name st cm = cm(table_name \<mapsto> st)"

definition log2_safe :: "real \<Rightarrow> real" where
  "log2_safe x = (if x \<le> 1 then 0 else log 2 x)"

definition estimate_filter_cpu :: "size_t \<Rightarrow> real \<Rightarrow> real" where
  "estimate_filter_cpu input_tuples sel = to_double input_tuples * CPU_OPERATOR_COST"

definition estimate_nested_loop_cost :: "size_t \<Rightarrow> size_t \<Rightarrow> size_t \<Rightarrow> real" where
  "estimate_nested_loop_cost left_tuples right_tuples right_pages =
     (let io = to_double (left_tuples * right_pages) * RANDOM_IO_COST;
          cpu = to_double (left_tuples * right_tuples) * CPU_OPERATOR_COST
      in io + cpu)"

definition estimate_hash_join_cost :: "size_t \<Rightarrow> size_t \<Rightarrow> size_t \<Rightarrow> real" where
  "estimate_hash_join_cost build_tuples probe_tuples build_pages =
     (let build_cost = to_double build_tuples * HASH_BUILD_COST;
          probe_cost = to_double probe_tuples * HASH_PROBE_COST;
          io = to_double build_pages * SEQUENTIAL_IO_COST
      in build_cost + probe_cost + io)"

definition estimate_sort_cost :: "size_t \<Rightarrow> real" where
  "estimate_sort_cost n =
     (if n \<le> 1 then 0
      else to_double n * log2_safe (to_double n) * CPU_OPERATOR_COST * MEMORY_SORT_COST)"

definition estimate_sort_merge_cost :: "size_t \<Rightarrow> size_t \<Rightarrow> real" where
  "estimate_sort_merge_cost left_tuples right_tuples =
     (let left_sort = estimate_sort_cost left_tuples;
          right_sort = estimate_sort_cost right_tuples;
          merge_cost = to_double (left_tuples + right_tuples) * CPU_OPERATOR_COST
      in left_sort + right_sort + merge_cost)"

definition estimate_join_selectivity :: "string \<Rightarrow> real" where
  "estimate_join_selectivity condition =
     (if str_contains ''='' condition then 1 / 10
      else if str_contains ''>'' condition \<or> str_contains ''<'' condition then 33 / 100
      else 1 / 10)"

definition filter_selectivity :: "string \<Rightarrow> real" where
  "filter_selectivity condition =
     (if str_contains ''age > 25'' condition then 88 / 100
      else if str_contains ''age < 30'' condition then 20 / 100
      else 1 / 10)"

fun estimate_output_cardinality :: "cost_model \<Rightarrow> plan_node \<Rightarrow> size_t" where
  "estimate_output_cardinality cm (PlanNode (TableScanNode t a) sch st co cs) =
     (case cm t of Some ts \<Rightarrow> tuple_count ts | None \<Rightarrow> 1000)"
| "estimate_output_cardinality cm (PlanNode (FilterNode c) sch st co []) = 0"
| "estimate_output_cardinality cm (PlanNode (FilterNode c) sch st co (ch # rest)) =
     to_size_t (to_double (estimate_output_cardinality cm ch) * filter_selectivity c)"
| "estimate_output_cardinality cm (PlanNode (ProjectNode ps) sch st co []) = 0"
| "estimate_output_cardinality cm (PlanNode (ProjectNode ps) sch st co (ch # rest)) =
     estimate_output_cardinality cm ch"
| "estimate_output_cardinality cm (PlanNode d sch st co []) = 0"
| "estimate_output_cardinality cm (PlanNode d sch st co [l]) = 0"
| "estimate_output_cardinality cm (PlanNode d sch st co (l # r # rest)) =
     (let join_condition =
            (case d of NestedLoopJoinNode jt c \<Rightarrow> c | HashJoinNode jt c \<Rightarrow> c
                     | SortMergeJoinNode jt c \<Rightarrow> c | _ \<Rightarrow> []);
          left_cardinality = estimate_output_cardinality cm l;
          right_cardinality = estimate_output_cardinality cm r
      in to_size_t (to_double (left_cardinality * right_cardinality)
                    * estimate_join_selectivity join_condition))"

definition estimate_table_scan_cost :: "cost_model \<Rightarrow> string \<Rightarrow> cost_estimate" where
  "estimate_table_scan_cost cm t =
     (case cm t of
        None \<Rightarrow> CostEstimate 10 1
      | Some ts \<Rightarrow> CostEstimate (to_double (tpage_count ts) * SEQUENTIAL_IO_COST)
                               (to_double (tuple_count ts) * CPU_TUPLE_COST))"

text \<open>
  The join case of \<open>estimate_join_cost\<close>, once both children are costed: the nested-loop
  branch adds \<open>estimate_nested_loop_cost\<close>, which already holds the I/O term, to the CPU
  part and the I/O term once more to the I/O part.
\<close>

definition join_cost_of ::
  "plan_node_type \<Rightarrow> cost_estimate \<Rightarrow> cost_estimate \<Rightarrow> size_t \<Rightarrow> size_t \<Rightarrow> cost_estimate" where
  "join_cost_of ty left_cost right_cost left_tuples right_tuples =
     (let total_io = io_cost left_cost + io_cost right_cost;
          total_cpu = cpu_cost left_cost + cpu_cost right_cost
      in if ty = NESTED_LOOP_JOIN then
           (let right_pages = max 1 (right_tuples div 100);
                join_cost = estimate_nested_loop_cost left_tuples right_tuples right_pages
            in CostEstimate (total_io + to_double (left_tuples * right_pages) * RANDOM_IO_COST)
                            (total_cpu + join_cost))
         else if ty = HASH_JOIN then
           (let build_tuples = min left_tuples right_tuples;
                probe_tuples = max left_tuples right_tuples;
                build_pages = max 1 (build_tuples div 100);
                join_cost = estimate_hash_join_cost build_tuples probe_tuples build_pages
            in CostEstimate total_io (total_cpu + join_cost))
         else if ty = SORT_MERGE_JOIN then
           (let join_cost = estimate_sort_merge_cost left_tuples right_tuples
            in CostEstimate total_io (total_cpu + join_cost))
         else CostEstimate total_io total_cpu)"

fun estimate_plan_cost :: "cost_model \<Rightarrow> plan_node \<Rightarrow> cost_estimate" where
  "estimate_plan_cost cm (PlanNode (TableScanNode t a) sch st co cs) =
     estimate_table_scan_cost cm t"
| "estimate_plan_cost cm (PlanNode (FilterNode c) sch st co []) = CostEstimate 0 0"
| "estimate_plan_cost cm (PlanNode (FilterNode c) sch st co (ch # rest)) =
     (let child_cost = estimate_plan_cost cm ch;
          input_tuples = estimate_output_cardinality cm ch;
          filter_cpu_cost = estimate_filter_cpu input_tuples (1 / 10)
      in CostEstimate (io_cost child_cost) (cpu_cost child_cost + filter_cpu_cost))"
| "estimate_plan_cost cm (PlanNode (ProjectNode ps) sch st co []) = CostEstimate 0 0"
| "estimate_plan_cost cm (PlanNode (ProjectNode ps) sch st co (ch # rest)) =
     (let child_cost = estimate_plan_cost cm ch;
          input_tuples = estimate_output_cardinality cm ch;
          project_cpu_cost = to_double input_tuples * CPU_OPERATOR_COST * (1 / 2)
      in CostEstimate (io_cost child_cost) (cpu_cost child_cost + project_cpu_cost))"
| "estimate_plan_cost cm (PlanNode d sch st co []) = CostEstimate 0 0"
| "estimate_plan_cost cm (PlanNode d sch st co [l]) = CostEstimate 0 0"
| "estimate_plan_cost cm (PlanNode d sch st co (l # r # rest)) =
     join_cost_of (node_type d) (estimate_plan_cost cm l) (estimate_plan_cost cm r)
       (estimate_output_cardinality cm l) (estimate_output_cardinality cm r)"


text \<open>
  Cost annotation as the optimizer does it: \<open>auto cost = cost_model.estimate_plan_cost(*plan);
  plan->cost = cost;\<close>
\<close>

definition annotate_cost :: "cost_model \<Rightarrow> plan_node \<Rightarrow> plan_node" where
  "annotate_cost cm p = set_cost (estimate_plan_cost cm p) p"

subsection \<open>The plan builder (plan_builder.cpp)\<close>

text \<open>The state of a \<open>PlanBuilder\<close> is its \<open>table_stats\<close> map.\<close>

type_synonym plan_builder = "string \<rightharpoonup> statistics"

definition PlanBuilder :: plan_builder where
  "PlanBuilder = [''users'' \<mapsto> Statistics 1000 10 1, ''orders'' \<mapsto> Statistics 5000 50 1,
                  ''products'' \<mapsto> Statistics 500 5 1]"

fun operator_string :: "binary_operator \<Rightarrow> string" where
  "operator_string EQUALS = ''=''"
| "operator_string NOT_EQUALS = ''!=''"
| "operator_string GREATER = ''>''"
| "operator_string LESS = ''<''"
| "operator_string GREATER_EQUAL = ''>=''"
| "operator_string LESS_EQUAL = ''<=''"
| "operator_string OP_AND = ''AND''"
| "operator_string OP_OR = ''OR''"

fun expression_to_string :: "expression \<Rightarrow> string" where
  "expression_to_string (ColumnExpression t c) = (if t = [] then c else t @ ''.'' @ c)"
| "expression_to_string (LiteralExpression v) = v"
| "expression_to_string (BinaryOpExpression l r op) =
     ''('' @ expression_to_string l @ '' '' @ operator_string op @ '' ''
       @ expression_to_string r @ '')''"
| "expression_to_string OtherExpression = ''UNKNOWN_EXPR''"

fun convert_join_type :: "join_clause_type \<Rightarrow> join_type" where
  "convert_join_type JC_INNER = INNER"
| "convert_join_type JC_LEFT = LEFT_OUTER"
| "convert_join_type JC_RIGHT = RIGHT_OUTER"

definition build_scan_node :: "plan_builder \<Rightarrow> table_reference \<Rightarrow> plan_node" where
  "build_scan_node pb t =
     PlanNode (TableScanNode (ref_table_name t) (ref_alias t))
       [Column (ref_table_name t) ''*'' ''int'']
       (case pb (ref_table_name t) of Some st \<Rightarrow> st | None \<Rightarrow> Statistics 0 0 1)
       (CostEstimate 0 0) []"

definition build_filter_node :: "plan_node \<Rightarrow> expression \<Rightarrow> plan_node" where
  "build_filter_node child condition =
     PlanNode (FilterNode (expression_to_string condition)) (output_schema child)
       ((stats child)\<lparr>selectivity := 1 / 10,
                      row_count := to_size_t (to_double (row_count (stats child)) * (1 / 10))\<rparr>)
       (CostEstimate 0 0) [child]"

definition build_project_node :: "plan_node \<Rightarrow> select_item list \<Rightarrow> plan_node" where
  "build_project_node child items =
     PlanNode (ProjectNode (map (\<lambda>item. expression_to_string (item_expression item)) items))
       (output_schema child) (stats child) (CostEstimate 0 0) [child]"

definition build_join_node ::
  "plan_node \<Rightarrow> plan_node \<Rightarrow> join_clause \<Rightarrow> plan_node_type \<Rightarrow> plan_node" where
  "build_join_node left right join join_algorithm =
     (let jt = convert_join_type (clause_type join);
          condition = expression_to_string (clause_condition join);
          d = (if join_algorithm = NESTED_LOOP_JOIN then NestedLoopJoinNode jt condition
               else if join_algorithm = HASH_JOIN then HashJoinNode jt condition
               else if join_algorithm = SORT_MERGE_JOIN then SortMergeJoinNode jt condition
               else NestedLoopJoinNode jt condition);
          rc = row_count (stats left) * row_count (stats right) div 10
      in PlanNode d (output_schema left @ output_schema right)
           (Statistics rc (rc div 100) (1 / 10)) (CostEstimate 0 0) [left, right])"

text \<open>
  The part shared by \<open>build_plan\<close>, \<open>generate_join_orders\<close> and
  \<open>generate_all_plans\<close>: the filter of the WHERE clause, if any, then the projection.
\<close>

definition finish_plan :: "select_statement \<Rightarrow> plan_node \<Rightarrow> plan_node" where
  "finish_plan stmt plan =
     build_project_node
       (case where_clause stmt of None \<Rightarrow> plan | Some w \<Rightarrow> build_filter_node plan w)
       (select_list stmt)"

definition left_deep_joins :: "plan_builder \<Rightarrow> select_statement \<Rightarrow> plan_node_type \<Rightarrow> plan_node" where
  "left_deep_joins pb stmt algorithm =
     fold (\<lambda>join plan. build_join_node plan (build_scan_node pb (clause_table join)) join algorithm)
       (joins stmt) (build_scan_node pb (from_table stmt))"

definition build_plan :: "plan_builder \<Rightarrow> select_statement \<Rightarrow> plan_node" where
  "build_plan pb stmt = finish_plan stmt (left_deep_joins pb stmt NESTED_LOOP_JOIN)"

definition join_algorithms :: "plan_node_type list" where
  "join_algorithms = [NESTED_LOOP_JOIN, HASH_JOIN, SORT_MERGE_JOIN]"

definition generate_join_orders :: "plan_builder \<Rightarrow> select_statement \<Rightarrow> plan_node list" where
  "generate_join_orders pb stmt =
     (if joins stmt = [] then [build_plan pb stmt]
      else map (\<lambda>algorithm. finish_plan stmt (left_deep_joins pb stmt algorithm)) join_algorithms)"

subsection \<open>The optimizer (optimizer.cpp)\<close>

record query_optimizer =
  opt_cost_model :: cost_model
  opt_plan_builder :: plan_builder

definition QueryOptimizer :: query_optimizer where
  "QueryOptimizer =
     \<lparr>opt_cost_model =
        set_table_statistics ''orders'' (TableStatistics 5000 50 80)
          (set_table_statistics ''users'' (TableStatistics 1000 10 120) CostModel),
      opt_plan_builder = PlanBuilder\<rparr>"

datatype plan_candidate = PlanCandidate (cand_plan: plan_node) (cand_cost: cost_estimate)

definition make_candidate :: "query_optimizer \<Rightarrow> plan_node \<Rightarrow> plan_candidate" where
  "make_candidate opt plan =
     (let c = estimate_plan_cost (opt_cost_model opt) plan in PlanCandidate (set_cost c plan) c)"

text \<open>
  \<open>generate_all_plans\<close>: one candidate per join algorithm over the left-deep order, and,
  when the statement has exactly one join, one more per algorithm with the two scans
  swapped. None of the builders raises, so both \<open>catch\<close> blocks are dead.
\<close>

definition generate_all_plans :: "query_optimizer \<Rightarrow> select_statement \<Rightarrow> plan_candidate list" where
  "generate_all_plans opt stmt =
     (let pb = opt_plan_builder opt;
          candidates =
            map (\<lambda>algorithm. make_candidate opt (finish_plan stmt (left_deep_joins pb stmt algorithm)))
              join_algorithms
      in if length (joins stmt) = 1 then
           candidates @
           map (\<lambda>algorithm.
                  make_candidate opt
                    (finish_plan stmt
                       (build_join_node (build_scan_node pb (clause_table (joins stmt ! 0)))
                          (build_scan_node pb (from_table stmt)) (joins stmt ! 0) algorithm)))
             join_algorithms
         else candidates)"

definition optimize_single_table :: "query_optimizer \<Rightarrow> select_statement \<Rightarrow> plan_node" where
  "optimize_single_table opt stmt =
     annotate_cost (opt_cost_model opt) (build_plan (opt_plan_builder opt) stmt)"


subsection \<open>Rows, schemas and tables (table.h)\<close>

datatype any_value = IntV int | StrV string

type_synonym row = "any_value list"

text \<open>
  \<open>Row::get<int>(index)\<close>: \<open>std::out_of_range\<close> when the index is not below the size,
  \<open>std::bad_any_cast\<close> when the value is not an \<open>int\<close>; both are \<open>None\<close>.
\<close>

definition get_int :: "row \<Rightarrow> nat \<Rightarrow> int option" where
  "get_int r index =
     (if length r \<le> index then None
      else case r ! index of IntV i \<Rightarrow> Some i | StrV s \<Rightarrow> None)"

record table_schema =
  column_names :: "string list"
  column_types :: "string list"

definition empty_schema :: table_schema where
  "empty_schema = \<lparr>column_names = [], column_types = []\<rparr>"

definition add_column :: "string \<Rightarrow> string \<Rightarrow> table_schema \<Rightarrow> table_schema" where
  "add_column n ty s = \<lparr>column_names = column_names s @ [n], column_types = column_types s @ [ty]\<rparr>"

text \<open>\<open>get_column_index\<close>: the first position of the name, \<open>None\<close> where the source throws.\<close>

fun index_of :: "string \<Rightarrow> string list \<Rightarrow> nat option" where
  "index_of n [] = None"
| "index_of n (c # cs) = (if c = n then Some 0 else map_option Suc (index_of n cs))"

definition get_column_index :: "table_schema \<Rightarrow> string \<Rightarrow> nat option" where
  "get_column_index s n = index_of n (column_names s)"

record table =
  t_name :: string
  t_schema :: table_schema
  t_rows :: "row list"

type_synonym table_manager = "string \<rightharpoonup> table"

definition create_table :: "string \<Rightarrow> table_schema \<Rightarrow> table_manager \<Rightarrow> table_manager" where
  "create_table n s tm = tm(n \<mapsto> \<lparr>t_name = n, t_schema = s, t_rows = []\<rparr>)"

text \<open>\<open>get_table(n)->add_row(r)\<close> on a table that exists.\<close>

definition add_row :: "string \<Rightarrow> row \<Rightarrow> table_manager \<Rightarrow> table_manager" where
  "add_row n r tm = (case tm n of None \<Rightarrow> tm | Some t \<Rightarrow> tm(n \<mapsto> t\<lparr>t_rows := t_rows t @ [r]\<rparr>))"

definition users_schema :: table_schema where
  "users_schema =
     add_column ''city'' ''string'' (add_column ''age'' ''int''
       (add_column ''name'' ''string'' (add_column ''id'' ''int'' empty_schema)))"

definition orders_schema :: table_schema where
  "orders_schema =
     add_column ''amount'' ''int'' (add_column ''product'' ''string''
       (add_column ''user_id'' ''int'' (add_column ''id'' ''int'' empty_schema)))"

definition user_row :: "int \<Rightarrow> row" where
  "user_row i =
     [IntV i, StrV (''User'' @ to_string i), IntV (20 + i mod 50),
      StrV (''City'' @ to_string (i mod 10 + 1))]"

definition order_row :: "int \<Rightarrow> row" where
  "order_row i =
     [IntV i, IntV (i mod 1000 + 1), StrV (''Product'' @ to_string (i mod 100 + 1)),
      IntV (10 + i mod 500)]"

definition populate_sample_data :: "table_manager \<Rightarrow> table_manager" where
  "populate_sample_data tm =
     (let tm1 = create_table ''users'' users_schema tm;
          tm2 = fold (\<lambda>i. add_row ''users'' (user_row i)) [1..1000] tm1;
          tm3 = create_table ''orders'' orders_schema tm2
      in fold (\<lambda>i. add_row ''orders'' (order_row i)) [1..5000] tm3)"

subsection \<open>The executor (executor.h, executor.cpp)\<close>

record result_set =
  rs_schema :: table_schema
  rs_rows :: "row list"

datatype error = RuntimeError string

text \<open>
  The \<open>try\<close> block shared by the three recognised predicates: look the column up, read
  it as an \<open>int\<close>; any exception is \<open>None\<close>.
\<close>

definition read_int_column :: "row \<Rightarrow> table_schema \<Rightarrow> string \<Rightarrow> int option" where
  "read_int_column r s n =
     (case get_column_index s n of None \<Rightarrow> None | Some idx \<Rightarrow> get_int r idx)"

text \<open>
  In the third branch \<open>condition.find("= ")\<close> cannot be \<open>npos\<close>, since \<open>"id = "\<close> occurs
  in the condition; \<open>npos + 2\<close> would wrap around to 1. The position found plus 2 is at
  most the size of the condition, so \<open>substr\<close>, which is outside the \<open>try\<close>, does not
  throw.
\<close>

definition evaluate_condition :: "row \<Rightarrow> table_schema \<Rightarrow> string \<Rightarrow> bool" where
  "evaluate_condition r s condition =
     (if str_contains ''age > 25'' condition then
        (case read_int_column r s ''age'' of Some age \<Rightarrow> 25 < age | None \<Rightarrow> False)
      else if str_contains ''age < 30'' condition then
        (case read_int_column r s ''age'' of Some age \<Rightarrow> age < 30 | None \<Rightarrow> False)
      else if str_contains ''id = '' condition then
        (let id_str = substr condition
                        (case str_find ''= '' condition of Some pos \<Rightarrow> pos + 2 | None \<Rightarrow> 1)
         in case read_int_column r s ''id'' of
              None \<Rightarrow> False
            | Some i \<Rightarrow> (case stoi id_str of None \<Rightarrow> False | Some target_id \<Rightarrow> i = target_id))
      else True)"

definition find_char :: "char \<Rightarrow> string \<Rightarrow> nat option" where
  "find_char c s = str_find [c] s"

definition parse_projections :: "string list \<Rightarrow> string list" where
  "parse_projections projections =
     map (\<lambda>proj. case find_char CHR ''.'' proj of
                    Some dot_pos \<Rightarrow> substr proj (dot_pos + 1)
                  | None \<Rightarrow> proj)
       (filter (\<lambda>proj. proj \<noteq> ''*'') projections)"

text \<open>
  The first loop of \<open>execute_project\<close>: the indices and the schema of the projections
  that resolve; the others are dropped by the \<open>catch\<close>.
\<close>

definition resolve_columns :: "table_schema \<Rightarrow> string list \<Rightarrow> nat list \<times> table_schema" where
  "resolve_columns child_schema columns =
     fold (\<lambda>col (column_indices, result_schema).
             case get_column_index child_schema col of
               None \<Rightarrow> (column_indices, result_schema)
             | Some idx \<Rightarrow> (column_indices @ [idx],
                            add_column col (column_types child_schema ! idx) result_schema))
       columns ([], empty_schema)"

definition project_row :: "nat list \<Rightarrow> row \<Rightarrow> row" where
  "project_row column_indices r = map (\<lambda>idx. r ! idx) (filter (\<lambda>idx. idx < length r) column_indices)"

text \<open>The schema of a join: the left schema, then every column of the right one.\<close>

definition join_schema :: "table_schema \<Rightarrow> table_schema \<Rightarrow> table_schema" where
  "join_schema l r =
     fold (\<lambda>i. add_column (column_names r ! i) (column_types r ! i)) [0..<length (column_names r)] l"

definition nested_loop_rows :: "row list \<Rightarrow> row list \<Rightarrow> row list" where
  "nested_loop_rows left_rows right_rows =
     concat (map (\<lambda>left_row. map (\<lambda>right_row. left_row @ right_row) right_rows) left_rows)"

text \<open>
  The build phase: \<open>hash_table[key].push_back(row)\<close> for every left row whose column 0
  is an \<open>int\<close>; the \<open>std::unordered_map\<close> is a partial map.
\<close>

definition hash_build :: "row list \<Rightarrow> (int \<rightharpoonup> row list)" where
  "hash_build left_rows =
     fold (\<lambda>r ht. case get_int r 0 of
                     None \<Rightarrow> ht
                   | Some key \<Rightarrow> ht(key \<mapsto> (case ht key of None \<Rightarrow> [] | Some rs \<Rightarrow> rs) @ [r]))
       left_rows Map.empty"

definition hash_probe :: "(int \<rightharpoonup> row list) \<Rightarrow> row list \<Rightarrow> row list" where
  "hash_probe hash_table right_rows =
     concat (map (\<lambda>right_row.
                    case get_int right_row 1 of
                      None \<Rightarrow> []
                    | Some key \<Rightarrow>
                        (case hash_table key of
                           None \<Rightarrow> []
                         | Some ls \<Rightarrow> map (\<lambda>left_row. left_row @ right_row) ls))
              right_rows)"

text \<open>
  The two comparators handed to \<open>std::sort\<close>: \<open>a.get<int>(k) < b.get<int>(k)\<close>, and
  \<open>false\<close> when either read throws.
\<close>

definition key_less :: "nat \<Rightarrow> row \<Rightarrow> row \<Rightarrow> bool" where
  "key_less k a b =
     (case (get_int a k, get_int b k) of (Some x, Some y) \<Rightarrow> x < y | _ \<Rightarrow> False)"

text \<open>
  \<open>std::sort\<close> is modelled by insertion sort. The standard leaves the order of
  equivalent elements open; the results below that involve sorting are proved from two
  facts only, that the output is a permutation of the input and that it is ordered.
\<close>

fun insert_sorted :: "('a \<Rightarrow> 'a \<Rightarrow> bool) \<Rightarrow> 'a \<Rightarrow> 'a list \<Rightarrow> 'a list" where
  "insert_sorted before x [] = [x]"
| "insert_sorted before x (y # ys) =
     (if before y x then y # insert_sorted before x ys else x # y # ys)"

definition std_sort :: "('a \<Rightarrow> 'a \<Rightarrow> bool) \<Rightarrow> 'a list \<Rightarrow> 'a list" where
  "std_sort before xs = foldr (insert_sorted before) xs []"

text \<open>
  The merge loop. The two lists are the rows from \<open>left_idx\<close> and from \<open>right_idx\<close> on;
  the loop ends when either is exhausted.
\<close>

fun merge_rows :: "row list \<Rightarrow> row list \<Rightarrow> row list" where
  "merge_rows [] rs = []"
| "merge_rows (l # ls) [] = []"
| "merge_rows (l # ls) (r # rs) =
     (case get_int l 0 of
        None \<Rightarrow> merge_rows ls (r # rs)
      | Some left_key \<Rightarrow>
          (case get_int r 1 of
             None \<Rightarrow> merge_rows ls (r # rs)
           | Some right_key \<Rightarrow>
               if left_key = right_key then (l @ r) # merge_rows (l # ls) rs
               else if left_key < right_key then merge_rows ls (r # rs)
               else merge_rows (l # ls) rs))"

definition sort_merge_rows :: "row list \<Rightarrow> row list \<Rightarrow> row list" where
  "sort_merge_rows left_rows right_rows =
     merge_rows (std_sort (key_less 0) left_rows) (std_sort (key_less 1) right_rows)"

definition join_rows :: "node_data \<Rightarrow> row list \<Rightarrow> row list \<Rightarrow> row list" where
  "join_rows d left_rows right_rows =
     (case d of
        HashJoinNode jt c \<Rightarrow> hash_probe (hash_build left_rows) right_rows
      | SortMergeJoinNode jt c \<Rightarrow> sort_merge_rows left_rows right_rows
      | _ \<Rightarrow> nested_loop_rows left_rows right_rows)"

definition project_result :: "string list \<Rightarrow> result_set \<Rightarrow> result_set" where
  "project_result projection_list child_result =
     (if projection_list = [''*''] then child_result
      else
        (let (column_indices, result_schema) =
               resolve_columns (rs_schema child_result) (parse_projections projection_list)
         in \<lparr>rs_schema = result_schema,
             rs_rows = map (project_row column_indices) (rs_rows child_result)\<rparr>))"

definition filter_result :: "string \<Rightarrow> result_set \<Rightarrow> result_set" where
  "filter_result condition child_result =
     \<lparr>rs_schema = rs_schema child_result,
      rs_rows = filter (\<lambda>r. evaluate_condition r (rs_schema child_result) condition)
                  (rs_rows child_result)\<rparr>"

fun execute :: "table_manager \<Rightarrow> plan_node \<Rightarrow> error + result_set" where
  "execute tm (PlanNode (TableScanNode t a) sch st co cs) =
     (case tm t of
        None \<Rightarrow> Inl (RuntimeError (''Table not found: '' @ t))
      | Some tab \<Rightarrow> Inr \<lparr>rs_schema = t_schema tab, rs_rows = t_rows tab\<rparr>)"
| "execute tm (PlanNode (FilterNode c) sch st co []) =
     Inl (RuntimeError ''Filter node has no children'')"
| "execute tm (PlanNode (FilterNode c) sch st co (ch # rest)) =
     (case execute tm ch of
        Inl e \<Rightarrow> Inl e
      | Inr child_result \<Rightarrow> Inr (filter_result c child_result))"
| "execute tm (PlanNode (ProjectNode ps) sch st co []) =
     Inl (RuntimeError ''Project node has no children'')"
| "execute tm (PlanNode (ProjectNode ps) sch st co (ch # rest)) =
     (case execute tm ch of
        Inl e \<Rightarrow> Inl e
      | Inr child_result \<Rightarrow> Inr (project_result ps child_result))"
| "execute tm (PlanNode d sch st co []) = Inl (RuntimeError ''Join node needs two children'')"
| "execute tm (PlanNode d sch st co [l]) = Inl (RuntimeError ''Join node needs two children'')"
| "execute tm (PlanNode d sch st co (l # r # rest)) =
     (case execute tm l of
        Inl e \<Rightarrow> Inl e
      | Inr left_result \<Rightarrow>
          (case execute tm r of
             Inl e \<Rightarrow> Inl e
           | Inr right_result \<Rightarrow>
               Inr \<lparr>rs_schema = join_schema (rs_schema left_result) (rs_schema right_result),
                    rs_rows = join_rows d (rs_rows left_result) (rs_rows right_result)\<rparr>))"


subsection \<open>Plans built by hand, as the test drivers do\<close>

text \<open>
  \<open>std::make_unique<TableScanNode>(t)\<close>, and a join node made with \<open>make_unique\<close> whose
  two children are pushed back in order.
\<close>

definition scan_of :: "string \<Rightarrow> plan_node" where
  "scan_of t = new_node (TableScanNode t [])"

definition join_of :: "node_data \<Rightarrow> plan_node \<Rightarrow> plan_node \<Rightarrow> plan_node" where
  "join_of d l r = PlanNode d [] (Statistics 0 0 1) (CostEstimate 0 0) [l, r]"

definition unary_of :: "node_data \<Rightarrow> plan_node \<Rightarrow> plan_node" where
  "unary_of d ch = PlanNode d [] (Statistics 0 0 1) (CostEstimate 0 0) [ch]"

text \<open>
  A cost model that also knows a one-row table: \<open>CostModel cm;
  cm.set_table_statistics("tiny", TableStatistics(1, 1, 100));\<close>
\<close>

definition tiny_model :: cost_model where
  "tiny_model = set_table_statistics ''tiny'' (TableStatistics 1 1 100) CostModel"

text \<open>\<open>TableManager tm; tm.populate_sample_data();\<close>\<close>

definition sample_data :: table_manager where
  "sample_data = populate_sample_data Map.empty"

text \<open>\<open>result->size()\<close> of an execution, \<open>None\<close> when it threw.\<close>

definition result_size :: "error + result_set \<Rightarrow> nat option" where
  "result_size res = (case res of Inl e \<Rightarrow> None | Inr rs \<Rightarrow> Some (length (rs_rows rs)))"

text \<open>
  The two statements of test_optimizer.cpp: \<open>SELECT name, age FROM users WHERE age > 25\<close>
  and \<open>SELECT * FROM users JOIN orders ON users.id = orders.user_id\<close>.
\<close>

definition simple_stmt :: select_statement where
  "simple_stmt =
     \<lparr>select_list = [SelectItem (ColumnExpression [] ''name'') [],
                      SelectItem (ColumnExpression [] ''age'') []],
      from_table = TableReference ''users'' [],
      joins = [],
      where_clause = Some (BinaryOpExpression (ColumnExpression [] ''age'')
                             (LiteralExpression ''25'') GREATER)\<rparr>"

definition join_stmt :: select_statement where
  "join_stmt =
     \<lparr>select_list = [SelectItem (ColumnExpression [] ''*'') []],
      from_table = TableReference ''users'' [],
      joins = [JoinClause JC_INNER (TableReference ''orders'' [])
                 (BinaryOpExpression (ColumnExpression ''users'' ''id'')
                    (ColumnExpression ''orders'' ''user_id'') EQUALS)],
      where_clause = None\<rparr>"

text \<open>
  A small catalogue with partially typed rows: in \<open>people\<close> the second row has a string
  where the age should be, the third has no age column at all and the fourth has a
  string as its id; \<open>visits\<close> has the same defects in its column 1.
\<close>

definition people_schema :: table_schema where
  "people_schema = add_column ''age'' ''int'' (add_column ''id'' ''int'' empty_schema)"

definition visits_schema :: table_schema where
  "visits_schema = add_column ''person_id'' ''int'' (add_column ''id'' ''int'' empty_schema)"

definition mixed_data :: table_manager where
  "mixed_data =
     (add_row ''visits'' [IntV 13, IntV 3]
     (add_row ''visits'' [IntV 12]
     (add_row ''visits'' [IntV 11, StrV ''nobody'']
     (add_row ''visits'' [IntV 10, IntV 1]
     (create_table ''visits'' visits_schema
     (add_row ''people'' [StrV ''four'', IntV 40]
     (add_row ''people'' [IntV 3]
     (add_row ''people'' [IntV 2, StrV ''old'']
     (add_row ''people'' [IntV 1, IntV 30]
     (create_table ''people'' people_schema Map.empty))))))))))"

text \<open>
  One person and two visits, the first of which has a string where the person's id
  should be; the second visit matches the person.
\<close>

definition late_match_data :: table_manager where
  "late_match_data =
     (add_row ''visits'' [IntV 10, IntV 1]
     (add_row ''visits'' [IntV 11, StrV ''nobody'']
     (create_table ''visits'' visits_schema
     (add_row ''people'' [IntV 1, IntV 30]
     (create_table ''people'' people_schema Map.empty)))))"

section \<open>Properties of the cost model\<close>

lemma log2_1000_bound: "log 2 1000 < 10"
proof -
  have "(1000::real) < 2 powr 10" by simp
  then show ?thesis by (subst log_less_iff) simp_all
qed

lemma log2_5000_bound: "log 2 5000 < 13"
proof -
  have "(5000::real) < 2 powr 13" by simp
  then show ?thesis by (subst log_less_iff) simp_all
qed

lemmas sample_cost_defs =
  scan_of_def join_of_def new_node_def join_cost_of_def estimate_table_scan_cost_def
  CostModel_def users_stats_def orders_stats_def TableStatistics_def cost_constants
  to_double_def CostEstimate_def Let_def

lemma hash_join_sample_cost:
  "estimate_plan_cost CostModel (join_of (HashJoinNode jt c) (scan_of ''users'') (scan_of ''orders''))
     = CostEstimate 60 3570"
  by (simp add: sample_cost_defs estimate_hash_join_cost_def)

lemma nested_loop_sample_cost:
  "estimate_plan_cost CostModel
     (join_of (NestedLoopJoinNode jt c) (scan_of ''users'') (scan_of ''orders''))
     = CostEstimate 200060 212560"
  by (simp add: sample_cost_defs estimate_nested_loop_cost_def)

lemma sort_merge_sample_cost:
  "estimate_plan_cost CostModel
     (join_of (SortMergeJoinNode jt c) (scan_of ''users'') (scan_of ''orders''))
     = CostEstimate 60 (75 + 5 * log 2 1000 + 25 * log 2 5000)"
  by (simp add: sample_cost_defs estimate_sort_merge_cost_def estimate_sort_cost_def
      log2_safe_def word_le_nat_alt)

text \<open>
  C1, as stated, fails: over the sample statistics the hash join costs 3630 and the
  sort-merge join less than 510, so the hash join is not the cheapest of the three.
\<close>

theorem join_cost_order_counterexample:
  "\<not> (total_cost (estimate_plan_cost CostModel
           (join_of (HashJoinNode INNER ''users.id = orders.user_id'')
              (scan_of ''users'') (scan_of ''orders'')))
        < total_cost (estimate_plan_cost CostModel
           (join_of (SortMergeJoinNode INNER ''users.id = orders.user_id'')
              (scan_of ''users'') (scan_of ''orders'')))
      \<and> total_cost (estimate_plan_cost CostModel
           (join_of (SortMergeJoinNode INNER ''users.id = orders.user_id'')
              (scan_of ''users'') (scan_of ''orders'')))
        < total_cost (estimate_plan_cost CostModel
           (join_of (NestedLoopJoinNode INNER ''users.id = orders.user_id'')
              (scan_of ''users'') (scan_of ''orders''))))"
  using log2_1000_bound log2_5000_bound
  unfolding hash_join_sample_cost sort_merge_sample_cost nested_loop_sample_cost
  by (simp add: CostEstimate_def)

text \<open>
  C1, amended: for the sample catalog statistics (users: 1000 tuples, 10 pages; orders:
  5000 tuples, 50 pages) the total costs of the three join plans over users and orders
  are strictly ordered SortMergeJoin < HashJoin < NestedLoopJoin.
\<close>

theorem join_cost_order_sample:
  "total_cost (estimate_plan_cost CostModel
       (join_of (SortMergeJoinNode INNER ''users.id = orders.user_id'')
          (scan_of ''users'') (scan_of ''orders'')))
     < total_cost (estimate_plan_cost CostModel
       (join_of (HashJoinNode INNER ''users.id = orders.user_id'')
          (scan_of ''users'') (scan_of ''orders'')))
   \<and> total_cost (estimate_plan_cost CostModel
       (join_of (HashJoinNode INNER ''users.id = orders.user_id'')
          (scan_of ''users'') (scan_of ''orders'')))
     < total_cost (estimate_plan_cost CostModel
       (join_of (NestedLoopJoinNode INNER ''users.id = orders.user_id'')
          (scan_of ''users'') (scan_of ''orders'')))"
  using log2_1000_bound log2_5000_bound
  unfolding hash_join_sample_cost sort_merge_sample_cost nested_loop_sample_cost
  by (simp add: CostEstimate_def)

lemma estimate_plan_cost_total:
  "total_cost (estimate_plan_cost cm p)
     = io_cost (estimate_plan_cost cm p) + cpu_cost (estimate_plan_cost cm p)"
  by (induction cm p rule: estimate_plan_cost.induct)
     (simp_all add: CostEstimate_def estimate_table_scan_cost_def join_cost_of_def Let_def
        split: option.splits)

text \<open>
  C2: for every plan node \<open>p\<close> and every state of the cost model, once the optimizer has
  written the estimate of the cost model into \<open>p.cost\<close>, the total cost stored there is
  the sum of the stored I/O cost and the stored CPU cost.
\<close>

theorem annotated_total_is_io_plus_cpu:
  "total_cost (cost (annotate_cost cm p))
     = io_cost (cost (annotate_cost cm p)) + cpu_cost (cost (annotate_cost cm p))"
  using estimate_plan_cost_total [of cm p] by (simp add: annotate_cost_def set_cost_def)


lemma hash_nl_arith:
  fixes a b :: nat
  assumes a: "29 \<le> a" and b: "1 \<le> b"
  shows "real (min a b) + real (max a b) / 2 + real (max 1 (min a b div 100)) + 1 / 2
         < 4 * real (a * max 1 (b div 100)) + real (a * b) * (25 / 10000)"
proof -
  define x where "x = real a"
  define y where "y = real b"
  define k where "k = real (max 1 (b div 100))"
  define m where "m = real (max 1 (min a b div 100))"
  define p where "p = x * y"
  define q where "q = x * k"
  have x29: "29 \<le> x" and y1: "1 \<le> y"
    using a b by (simp_all add: x_def y_def)
  have k1: "1 \<le> k"
    by (simp add: k_def)
  have "b \<le> 100 * (b div 100) + 99"
    by presburger
  then have "b \<le> 100 * max 1 (b div 100) + 99"
    by (simp add: max_def)
  then have "real b \<le> real (100 * max 1 (b div 100) + 99)"
    by (rule of_nat_mono)
  then have k2: "y - 99 \<le> 100 * k"
    by (simp add: y_def k_def)
  define c where "c = min a b"
  have "max 1 (c div 100) \<le> 1 + c div 100"
    by simp
  then have "100 * max 1 (c div 100) \<le> 100 + 100 * (c div 100)"
    by simp
  also have "\<dots> \<le> 100 + c"
    by simp
  finally have "real (100 * max 1 (c div 100)) \<le> real (100 + c)"
    by (rule of_nat_mono)
  then have m0: "100 * m \<le> 100 + real c"
    by (simp add: m_def c_def)
  have "real c = min x y"
    by (simp add: c_def x_def y_def min_def)
  with m0 have m1: "100 * m \<le> 100 + min x y"
    by simp
  have q1: "x \<le> q"
    using mult_left_mono [of 1 k x] k1 x29 by (simp add: q_def)
  have q2: "p - 99 * x \<le> 100 * q"
    using mult_left_mono [of "y - 99" "100 * k" x] k2 x29
    by (simp add: q_def p_def algebra_simps)
  have p1: "29 * y \<le> p"
    using mult_right_mono [of 29 x y] x29 y1 by (simp add: p_def)
  have p0: "0 \<le> p"
    using x29 y1 by (simp add: p_def)
  have main: "min x y + max x y / 2 + m + 1 / 2 < 4 * q + p * (25 / 10000)"
  proof (cases "y \<le> x")
    case True
    then have "min x y = y" "max x y = x" by simp_all
    then show ?thesis using True m1 q1 p0 x29 y1 by simp
  next
    case False
    then have xy: "min x y = x" "max x y = y" by simp_all
    show ?thesis
    proof (cases "b < 200")
      case True
      then have "b \<le> 199" by simp
      then have "real b \<le> real 199" by (rule of_nat_mono)
      then have "y \<le> 199" by (simp add: y_def)
      then show ?thesis using xy m1 q1 p1 x29 y1 by simp
    next
      case False
      then have "200 \<le> b" by simp
      then have "real 200 \<le> real b" by (rule of_nat_mono)
      then have "200 \<le> y" by (simp add: y_def)
      then have "0 \<le> (x - 29) * (y - 200)"
        using x29 by simp
      then have p2: "200 * x + 29 * y - 5800 \<le> p"
        by (simp add: p_def algebra_simps)
      show ?thesis using xy \<open>200 \<le> y\<close> m1 q2 p2 x29 y1 by simp
    qed
  qed
  have "real (min a b) = min x y" "real (max a b) = max x y"
    by (simp_all add: x_def y_def min_def max_def)
  moreover have "real (a * max 1 (b div 100)) = q" "real (a * b) = p"
    by (simp_all add: q_def k_def p_def x_def y_def)
  ultimately show ?thesis
    using main by (simp add: m_def)
qed

lemma unat_min: "unat (min a b) = min (unat a) (unat b)" for a b :: size_t
  by (simp add: min_def word_le_nat_alt)

lemma unat_max: "unat (max a b) = max (unat a) (unat b)" for a b :: size_t
  by (simp add: max_def word_le_nat_alt)

lemma unat_pages: "unat (max 1 (n div 100)) = max 1 (unat n div 100)" for n :: size_t
  by (simp add: unat_max unat_div)

lemma join_cost_compare:
  fixes A B C D E :: real
  assumes "to_double (min lt rt) = A"
    and "to_double (max lt rt) = B"
    and "to_double (max 1 (min lt rt div 100)) = C"
    and "to_double (lt * max 1 (rt div 100)) = D"
    and "to_double (lt * rt) = E"
    and "A + B / 2 + C + 1 / 2 < 4 * D + E * (25 / 10000)"
  shows "total_cost (join_cost_of HASH_JOIN lc rc lt rt) + 1 / 2
           < total_cost (join_cost_of NESTED_LOOP_JOIN lc rc lt rt)
               - to_double (lt * max 1 (rt div 100)) * RANDOM_IO_COST"
proof -
  have h: "total_cost (join_cost_of HASH_JOIN lc rc lt rt)
             = io_cost lc + io_cost rc + (cpu_cost lc + cpu_cost rc + (A + B / 2 + C))"
    by (simp add: join_cost_of_def Let_def CostEstimate_def estimate_hash_join_cost_def
        cost_constants assms(1-3))
  have n: "total_cost (join_cost_of NESTED_LOOP_JOIN lc rc lt rt)
             = io_cost lc + io_cost rc + D * 4 + (cpu_cost lc + cpu_cost rc + (D * 4 + E * (25 / 10000)))"
    by (simp add: join_cost_of_def Let_def CostEstimate_def estimate_nested_loop_cost_def
        cost_constants assms(4-5))
  have d: "to_double (lt * max 1 (rt div 100)) * RANDOM_IO_COST = D * 4"
    by (simp add: assms(4) cost_constants)
  show ?thesis
    unfolding h n d using assms(6) by linarith
qed

lemma hash_vs_nested_loop_costs:
  fixes lt rt :: size_t
  assumes big: "29 \<le> unat lt" and nz: "1 \<le> unat rt" and wrap: "unat lt * unat rt < 2 ^ 64"
  shows "total_cost (join_cost_of HASH_JOIN lc rc lt rt) + 1 / 2
           < total_cost (join_cost_of NESTED_LOOP_JOIN lc rc lt rt)
               - to_double (lt * max 1 (rt div 100)) * RANDOM_IO_COST"
proof (rule join_cost_compare)
  show "to_double (min lt rt) = real (min (unat lt) (unat rt))"
    unfolding to_double_def unat_min ..
  show "to_double (max lt rt) = real (max (unat lt) (unat rt))"
    unfolding to_double_def unat_max ..
  show "to_double (max 1 (min lt rt div 100)) = real (max 1 (min (unat lt) (unat rt) div 100))"
    unfolding to_double_def unat_pages unat_min ..
  have le: "max 1 (unat rt div 100) \<le> unat rt"
    using nz by simp
  have "unat lt * max 1 (unat rt div 100) \<le> unat lt * unat rt"
    using le by (rule mult_le_mono2)
  also note wrap
  finally have "unat lt * unat (max 1 (rt div 100)) < 2 ^ LENGTH(64)"
    by (simp add: unat_pages)
  then have "unat (lt * max 1 (rt div 100)) = unat lt * unat (max 1 (rt div 100))"
    by (rule unat_mult_lem [THEN iffD1])
  then show "to_double (lt * max 1 (rt div 100)) = real (unat lt * max 1 (unat rt div 100))"
    unfolding to_double_def unat_pages by (rule arg_cong)
  have "unat lt * unat rt < 2 ^ LENGTH(64)"
    using wrap by simp
  then have "unat (lt * rt) = unat lt * unat rt"
    by (rule unat_mult_lem [THEN iffD1])
  then show "to_double (lt * rt) = real (unat lt * unat rt)"
    unfolding to_double_def by (rule arg_cong)
  show "real (min (unat lt) (unat rt)) + real (max (unat lt) (unat rt)) / 2
          + real (max 1 (min (unat lt) (unat rt) div 100)) + 1 / 2
        < 4 * real (unat lt * max 1 (unat rt div 100)) + real (unat lt * unat rt) * (25 / 10000)"
    using big nz by (rule hash_nl_arith)
qed

lemma io_term_nonneg: "0 \<le> to_double n * RANDOM_IO_COST"
  unfolding to_double_def RANDOM_IO_COST_def
  by (rule mult_nonneg_nonneg) (rule of_nat_0_le_iff, simp)

lemma tiny_card: "estimate_output_cardinality tiny_model (scan_of ''tiny'') = 1"
  "estimate_output_cardinality tiny_model (scan_of ''users'') = 1000"
  by (simp_all add: tiny_model_def set_table_statistics_def scan_of_def new_node_def CostModel_def users_stats_def TableStatistics_def)

lemma tiny_hash: "estimate_plan_cost tiny_model (join_of (HashJoinNode jt c) (scan_of ''tiny'') (scan_of ''users'')) = CostEstimate 11 (51201 / 100)"
  by (simp add: tiny_model_def set_table_statistics_def sample_cost_defs estimate_hash_join_cost_def)

lemma tiny_nl: "estimate_plan_cost tiny_model (join_of (NestedLoopJoinNode jt c) (scan_of ''tiny'') (scan_of ''users'')) = CostEstimate 51 (5251 / 100)"
  by (simp add: tiny_model_def set_table_statistics_def sample_cost_defs estimate_nested_loop_cost_def)

text \<open>
  C5, as stated, fails: with a one-row outer input and a 1000-row inner input the product
  of the tuple counts is 1000, yet the hash join costs 523.01 and the nested-loop join
  103.51.
\<close>

theorem hash_join_cheaper_counterexample: "1000 \<le> unat (estimate_output_cardinality tiny_model (scan_of ''tiny'')) * unat (estimate_output_cardinality tiny_model (scan_of ''users''))
  \<and> \<not> total_cost (estimate_plan_cost tiny_model (join_of (HashJoinNode INNER ''tiny.id = users.id'') (scan_of ''tiny'') (scan_of ''users'')))
   < total_cost (estimate_plan_cost tiny_model (join_of (NestedLoopJoinNode INNER ''tiny.id = users.id'') (scan_of ''tiny'') (scan_of ''users'')))"
  unfolding tiny_card tiny_hash tiny_nl by (simp add: CostEstimate_def)

text \<open>
  C5, amended: for every pair of join inputs \<open>L\<close> and \<open>R\<close> whose estimated tuple counts
  satisfy \<open>L.tuples \<times> R.tuples \<ge> 1000\<close> and \<open>L.tuples \<ge> 29\<close>, whose product does not wrap
  around in \<open>size_t\<close>, and whose nested-loop plan has a total cost of at most \<open>2^40\<close>,
  the total cost of the hash join over \<open>(L, R)\<close> is strictly less than the total cost of
  the nested-loop join over \<open>(L, R)\<close>. The difference exceeds one I/O term
  \<open>L.tuples \<times> R.pages \<times> RANDOM_IO\<close> by more than 1/2: the order holds whether
  \<open>estimate_join_cost\<close> counts that term once or twice, and at totals up to \<open>2^40\<close> the
  rounding of binary64, at most \<open>2^-13\<close> for each operation there, cannot reverse it.
\<close>

theorem hash_join_cheaper_than_nested_loop:
  assumes "1000 \<le> unat (estimate_output_cardinality cm L) * unat (estimate_output_cardinality cm R)"
    and "29 \<le> unat (estimate_output_cardinality cm L)"
    and "unat (estimate_output_cardinality cm L) * unat (estimate_output_cardinality cm R) < 2 ^ 64"
    and "total_cost (estimate_plan_cost cm (PlanNode (NestedLoopJoinNode jt' c') sch' st' co' [L, R]))
           \<le> 2 ^ 40"
  shows "total_cost (estimate_plan_cost cm (PlanNode (HashJoinNode jt c) sch st co [L, R]))
           < total_cost (estimate_plan_cost cm (PlanNode (NestedLoopJoinNode jt' c') sch' st' co' [L, R]))
         \<and> total_cost (estimate_plan_cost cm (PlanNode (HashJoinNode jt c) sch st co [L, R])) + 1 / 2
           < total_cost (estimate_plan_cost cm (PlanNode (NestedLoopJoinNode jt' c') sch' st' co' [L, R]))
               - to_double (estimate_output_cardinality cm L
                              * max 1 (estimate_output_cardinality cm R div 100)) * RANDOM_IO_COST"
proof -
  have "unat (estimate_output_cardinality cm R) \<noteq> 0"
  proof
    assume "unat (estimate_output_cardinality cm R) = 0"
    then have "unat (estimate_output_cardinality cm L) * unat (estimate_output_cardinality cm R) = 0"
      by (rule mult_is_0 [THEN iffD2, OF disjI2])
    with assms(1) show False by linarith
  qed
  then have nz: "1 \<le> unat (estimate_output_cardinality cm R)"
    by linarith
  have "total_cost (join_cost_of HASH_JOIN (estimate_plan_cost cm L) (estimate_plan_cost cm R)
            (estimate_output_cardinality cm L) (estimate_output_cardinality cm R)) + 1 / 2
        < total_cost (join_cost_of NESTED_LOOP_JOIN (estimate_plan_cost cm L) (estimate_plan_cost cm R)
            (estimate_output_cardinality cm L) (estimate_output_cardinality cm R))
          - to_double (estimate_output_cardinality cm L
                         * max 1 (estimate_output_cardinality cm R div 100)) * RANDOM_IO_COST"
    using assms(2) nz assms(3) by (rule hash_vs_nested_loop_costs)
  then have margin:
    "total_cost (estimate_plan_cost cm (PlanNode (HashJoinNode jt c) sch st co [L, R])) + 1 / 2
       < total_cost (estimate_plan_cost cm (PlanNode (NestedLoopJoinNode jt' c') sch' st' co' [L, R]))
           - to_double (estimate_output_cardinality cm L
                          * max 1 (estimate_output_cardinality cm R div 100)) * RANDOM_IO_COST"
    by (simp only: estimate_plan_cost.simps node_type.simps)
  moreover have "total_cost (estimate_plan_cost cm (PlanNode (HashJoinNode jt c) sch st co [L, R]))
           < total_cost (estimate_plan_cost cm (PlanNode (NestedLoopJoinNode jt' c') sch' st' co' [L, R]))"
    using margin io_term_nonneg [of "estimate_output_cardinality cm L
                          * max 1 (estimate_output_cardinality cm R div 100)"]
    by linarith
  ultimately show ?thesis by (intro conjI)
qed

lemma sample_card: "estimate_output_cardinality CostModel (scan_of ''users'') = 1000"
     "estimate_output_cardinality CostModel (scan_of ''orders'') = 5000"
  by (simp_all add: scan_of_def new_node_def CostModel_def users_stats_def orders_stats_def TableStatistics_def)

theorem hash_join_cheaper_than_nested_loop_witness:
  "1000 \<le> unat (estimate_output_cardinality CostModel (scan_of ''users''))
            * unat (estimate_output_cardinality CostModel (scan_of ''orders''))
   \<and> 29 \<le> unat (estimate_output_cardinality CostModel (scan_of ''users''))
   \<and> unat (estimate_output_cardinality CostModel (scan_of ''users''))
       * unat (estimate_output_cardinality CostModel (scan_of ''orders'')) < 2 ^ 64
   \<and> total_cost (estimate_plan_cost CostModel
         (join_of (NestedLoopJoinNode INNER ''users.id = orders.user_id'')
            (scan_of ''users'') (scan_of ''orders''))) \<le> 2 ^ 40
   \<and> total_cost (estimate_plan_cost CostModel
         (join_of (HashJoinNode INNER ''users.id = orders.user_id'')
            (scan_of ''users'') (scan_of ''orders'')))
       < total_cost (estimate_plan_cost CostModel
         (join_of (NestedLoopJoinNode INNER ''users.id = orders.user_id'')
            (scan_of ''users'') (scan_of ''orders'')))
   \<and> total_cost (estimate_plan_cost CostModel
         (join_of (HashJoinNode INNER ''users.id = orders.user_id'')
            (scan_of ''users'') (scan_of ''orders''))) + 1 / 2
       < total_cost (estimate_plan_cost CostModel
         (join_of (NestedLoopJoinNode INNER ''users.id = orders.user_id'')
            (scan_of ''users'') (scan_of ''orders'')))
         - to_double (estimate_output_cardinality CostModel (scan_of ''users'')
                        * max 1 (estimate_output_cardinality CostModel (scan_of ''orders'') div 100))
           * RANDOM_IO_COST"
proof -
  have h1: "1000 \<le> unat (estimate_output_cardinality CostModel (scan_of ''users''))
            * unat (estimate_output_cardinality CostModel (scan_of ''orders''))"
    unfolding sample_card by simp
  have h2: "29 \<le> unat (estimate_output_cardinality CostModel (scan_of ''users''))"
    unfolding sample_card by simp
  have h3: "unat (estimate_output_cardinality CostModel (scan_of ''users''))
       * unat (estimate_output_cardinality CostModel (scan_of ''orders'')) < 2 ^ 64"
    unfolding sample_card by simp
  have h4: "total_cost (estimate_plan_cost CostModel
         (PlanNode (NestedLoopJoinNode INNER ''users.id = orders.user_id'') []
            (Statistics 0 0 1) (CostEstimate 0 0) [scan_of ''users'', scan_of ''orders''])) \<le> 2 ^ 40"
    using nested_loop_sample_cost [of INNER "''users.id = orders.user_id''"]
    by (simp add: join_of_def CostEstimate_def)
  note main = hash_join_cheaper_than_nested_loop [OF h1 h2 h3 h4,
      of INNER "''users.id = orders.user_id''" "[]" "Statistics 0 0 1" "CostEstimate 0 0"]
  show ?thesis
    unfolding join_of_def using h1 h2 h3 h4 main by (intro conjI) blast+
qed

section \<open>Properties of the executor\<close>

subsection \<open>The sample tables\<close>

lemma fold_add_row:
  "fold (\<lambda>i. add_row n (f i)) xs tm m =
     (if m = n then map_option (\<lambda>t. t\<lparr>t_rows := t_rows t @ map f xs\<rparr>) (tm n) else tm m)"
proof (induction xs arbitrary: tm)
  case Nil
  then show ?case by (cases "tm n") simp_all
next
  case (Cons x xs)
  have "fold (\<lambda>i. add_row n (f i)) (x # xs) tm m = fold (\<lambda>i. add_row n (f i)) xs (add_row n (f x) tm) m"
    by simp
  also have "\<dots> = (if m = n then map_option (\<lambda>t. t\<lparr>t_rows := t_rows t @ map f xs\<rparr>) (add_row n (f x) tm n)
                   else add_row n (f x) tm m)"
    by (rule Cons.IH)
  also have "\<dots> = (if m = n then map_option (\<lambda>t. t\<lparr>t_rows := t_rows t @ map f (x # xs)\<rparr>) (tm n) else tm m)"
    by (cases "tm n") (simp_all add: add_row_def)
  finally show ?case .
qed

lemma sample_users:
  "sample_data ''users'' =
     Some \<lparr>t_name = ''users'', t_schema = users_schema, t_rows = map user_row [1..1000]\<rparr>"
  by (simp add: sample_data_def populate_sample_data_def Let_def fold_add_row create_table_def)

lemma sample_orders:
  "sample_data ''orders'' =
     Some \<lparr>t_name = ''orders'', t_schema = orders_schema, t_rows = map order_row [1..5000]\<rparr>"
  by (simp add: sample_data_def populate_sample_data_def Let_def fold_add_row create_table_def)

lemma scan_users:
  "execute sample_data (scan_of ''users'') = Inr \<lparr>rs_schema = users_schema, rs_rows = map user_row [1..1000]\<rparr>"
  by (simp add: scan_of_def new_node_def sample_users)

lemma scan_orders:
  "execute sample_data (scan_of ''orders'') = Inr \<lparr>rs_schema = orders_schema, rs_rows = map order_row [1..5000]\<rparr>"
  by (simp add: scan_of_def new_node_def sample_orders)

lemma count_over_25: "length (filter (\<lambda>i. 5 < i mod 50) [1..1000::int]) = 880"
  by code_simp

lemma starts_with_append: "starts_with pat (pat @ post)"
  by (induction pat) simp_all

lemma str_contains_middle: "str_contains pat (pre @ pat @ post)"
  unfolding str_contains_def
proof (induction pre)
  case Nil
  show ?case using starts_with_append [of pat post] by (cases "pat @ post") auto
next
  case (Cons a pre)
  then show ?case by auto
qed

lemma users_age: "read_int_column (user_row i) users_schema ''age'' = Some (20 + i mod 50)"
  by (simp add: read_int_column_def get_column_index_def users_schema_def add_column_def
      empty_schema_def user_row_def get_int_def)

lemma eval_age_users:
  "str_contains ''age > 25'' c \<Longrightarrow>
   evaluate_condition (user_row i) users_schema c
     = (case user_row i ! 2 of IntV a \<Rightarrow> 25 < a | StrV s \<Rightarrow> False)"
  by (simp add: evaluate_condition_def users_age) (simp add: user_row_def)

lemma filter_users:
  assumes "str_contains ''age > 25'' c"
  shows "filter (\<lambda>r. evaluate_condition r users_schema c) (map user_row xs)
     = filter (\<lambda>r. case r ! 2 of IntV a \<Rightarrow> 25 < a | StrV s \<Rightarrow> False) (map user_row xs)"
proof (rule filter_cong [OF refl])
  fix r assume "r \<in> set (map user_row xs)"
  then obtain i where "r = user_row i" by auto
  then show "evaluate_condition r users_schema c
      = (case r ! 2 of IntV a \<Rightarrow> 25 < a | StrV s \<Rightarrow> False)"
    using eval_age_users [OF assms] by simp
qed

lemma over_25_users:
  "length (filter (\<lambda>r. case r ! 2 of IntV a \<Rightarrow> 25 < a | StrV s \<Rightarrow> False)
     (map user_row [1..1000])) = 880"
proof -
  have "(\<lambda>r. case r ! 2 of IntV a \<Rightarrow> 25 < a | StrV s \<Rightarrow> False) \<circ> user_row
          = (\<lambda>i. 5 < i mod 50)"
    by (rule ext) (simp add: user_row_def)
  then have "filter (\<lambda>r. case r ! 2 of IntV a \<Rightarrow> 25 < a | StrV s \<Rightarrow> False) (map user_row [1..1000])
          = map user_row (filter (\<lambda>i. 5 < i mod 50) [1..1000])"
    by (simp only: filter_map)
  then show ?thesis
    by (simp only: length_map count_over_25)
qed

lemma filter_scan_users:
  assumes "str_contains ''age > 25'' c"
  shows "execute sample_data (unary_of (FilterNode c) (scan_of ''users''))
     = Inr \<lparr>rs_schema = users_schema,
            rs_rows = filter (\<lambda>r. case r ! 2 of IntV a \<Rightarrow> 25 < a | StrV s \<Rightarrow> False)
                        (map user_row [1..1000])\<rparr>"
  unfolding unary_of_def execute.simps scan_users
  by (simp only: sum.case filter_result_def result_set.simps filter_users [OF assms])

lemma project_name_age_schema:
  "resolve_columns users_schema (parse_projections [''name'', ''age''])
     = ([1, 2], \<lparr>column_names = [''name'', ''age''], column_types = [''string'', ''int'']\<rparr>)"
  by (simp add: resolve_columns_def parse_projections_def find_char_def get_column_index_def
      users_schema_def add_column_def empty_schema_def)

lemma project_filter_scan_users:
  assumes "str_contains ''age > 25'' c"
  shows "map_sum id rs_schema (execute sample_data
        (unary_of (ProjectNode [''name'', ''age''])
           (unary_of (FilterNode c) (scan_of ''users''))))
       = Inr \<lparr>column_names = [''name'', ''age''], column_types = [''string'', ''int'']\<rparr>"
  unfolding unary_of_def [of "ProjectNode [''name'', ''age'']"] execute.simps
    filter_scan_users [OF assms]
  by (simp add: project_result_def project_name_age_schema)

text \<open>
  C4, amended: executing a Filter whose condition contains \<open>age > 25\<close> over a scan of the
  sample users table returns, under the schema of users, exactly the rows whose age
  column exceeds 25, in table order, and there are 880 of them; projecting name and age
  on top yields the schema [name:string, age:int].
\<close>

theorem filter_age_over_25_sample:
  "execute sample_data (unary_of (FilterNode (pre @ ''age > 25'' @ post)) (scan_of ''users''))
     = Inr \<lparr>rs_schema = users_schema,
            rs_rows = filter (\<lambda>r. case r ! 2 of IntV a \<Rightarrow> 25 < a | StrV s \<Rightarrow> False)
                        (map user_row [1..1000])\<rparr>
   \<and> result_size (execute sample_data
        (unary_of (FilterNode (pre @ ''age > 25'' @ post)) (scan_of ''users''))) = Some 880
   \<and> map_sum id rs_schema (execute sample_data
        (unary_of (ProjectNode [''name'', ''age''])
           (unary_of (FilterNode (pre @ ''age > 25'' @ post)) (scan_of ''users''))))
       = Inr \<lparr>column_names = [''name'', ''age''], column_types = [''string'', ''int'']\<rparr>"
proof (intro conjI)
  note c = str_contains_middle [of "''age > 25''" pre post]
  show "execute sample_data (unary_of (FilterNode (pre @ ''age > 25'' @ post)) (scan_of ''users''))
     = Inr \<lparr>rs_schema = users_schema,
            rs_rows = filter (\<lambda>r. case r ! 2 of IntV a \<Rightarrow> 25 < a | StrV s \<Rightarrow> False)
                        (map user_row [1..1000])\<rparr>"
    using c by (rule filter_scan_users)
  show "result_size (execute sample_data
        (unary_of (FilterNode (pre @ ''age > 25'' @ post)) (scan_of ''users''))) = Some 880"
    unfolding filter_scan_users [OF c] result_size_def
    by (simp only: sum.case result_set.simps over_25_users)
  show "map_sum id rs_schema (execute sample_data
        (unary_of (ProjectNode [''name'', ''age''])
           (unary_of (FilterNode (pre @ ''age > 25'' @ post)) (scan_of ''users''))))
       = Inr \<lparr>column_names = [''name'', ''age''], column_types = [''string'', ''int'']\<rparr>"
    using c by (rule project_filter_scan_users)
qed

text \<open>
  C4, as stated, fails: the ages 20 to 25 belong to 6 of the 50 residues of \<open>i mod 50\<close>,
  each taken by 20 users, so 880 rows pass the filter, not 900.
\<close>

theorem filter_age_over_25_count_counterexample:
  "result_size (execute sample_data (unary_of (FilterNode ''age > 25'') (scan_of ''users''))) \<noteq> Some 900"
proof -
  have c: "str_contains ''age > 25'' ''age > 25''"
    by (simp add: str_contains_def)
  have "result_size (execute sample_data (unary_of (FilterNode ''age > 25'') (scan_of ''users''))) = Some 880"
    unfolding filter_scan_users [OF c] result_size_def
    by (simp only: sum.case result_set.simps over_25_users)
  then show ?thesis by simp
qed

subsection \<open>Filter and Project\<close>

text \<open>
  C9: for every condition \<open>c\<close>, every child plan \<open>S\<close> and every catalogue, executing
  \<open>Filter(c, Filter(c, S))\<close> gives exactly what executing \<open>Filter(c, S)\<close> gives: the same
  error when \<open>S\<close> fails, and otherwise the same schema and the same rows in the same
  order.
\<close>

theorem filter_idempotent:
  "execute tm (PlanNode (FilterNode c) s1 st1 c1 (PlanNode (FilterNode c) s2 st2 c2 (S # rest2) # rest1))
     = execute tm (PlanNode (FilterNode c) s3 st3 c3 (S # rest3))"
  by (cases "execute tm S") (simp_all add: filter_result_def)

text \<open>
  C10: the recogniser of \<open>evaluate_condition\<close> tries \<open>age > 25\<close> first, then \<open>age < 30\<close>,
  then \<open>id = \<close>. For every row, schema and condition, the result is the one of the first
  pattern that occurs in the condition; whatever else the condition holds is ignored.
\<close>

theorem condition_priority:
  "(str_contains ''age > 25'' c \<longrightarrow>
      evaluate_condition r s c
        = (case read_int_column r s ''age'' of Some age \<Rightarrow> 25 < age | None \<Rightarrow> False))
   \<and> (\<not> str_contains ''age > 25'' c \<and> str_contains ''age < 30'' c \<longrightarrow>
      evaluate_condition r s c
        = (case read_int_column r s ''age'' of Some age \<Rightarrow> age < 30 | None \<Rightarrow> False))
   \<and> (\<not> str_contains ''age > 25'' c \<and> \<not> str_contains ''age < 30'' c \<and> str_contains ''id = '' c \<longrightarrow>
      evaluate_condition r s c
        = (case read_int_column r s ''id'' of
             Some i \<Rightarrow>
               stoi (substr c (case str_find ''= '' c of Some pos \<Rightarrow> pos + 2 | None \<Rightarrow> 1)) = Some i
           | None \<Rightarrow> False))"
  by (auto simp add: evaluate_condition_def Let_def split: option.splits)

subsection \<open>Witnesses of the predicate recogniser\<close>

lemma users_id: "read_int_column (user_row i) users_schema ''id'' = Some i"
  by (simp add: read_int_column_def get_column_index_def users_schema_def add_column_def
      empty_schema_def user_row_def get_int_def)

lemma cond_both_ages: "str_contains ''age > 25'' ''((age > 25) AND (age < 30))''"
  "str_contains ''age < 30'' ''((age > 25) AND (age < 30))''"
  by (simp_all add: str_contains_def)

lemma cond_age_and_id: "\<not> str_contains ''age > 25'' ''((age < 30) AND (id = 7))''"
  "str_contains ''age < 30'' ''((age < 30) AND (id = 7))''"
  "str_contains ''id = '' ''((age < 30) AND (id = 7))''"
  by (simp_all add: str_contains_def)

lemma cond_id_only: "\<not> str_contains ''age > 25'' ''(id = 7)''"
  "\<not> str_contains ''age < 30'' ''(id = 7)''"
  "str_contains ''id = '' ''(id = 7)''"
  by (simp_all add: str_contains_def)

lemma stoi7: "stoi (substr ''(id = 7)'' (case str_find ''= '' ''(id = 7)'' of Some pos \<Rightarrow> pos + 2 | None \<Rightarrow> 1)) = Some 7"
  by (simp add: stoi_def substr_def isspace_def isdigit_def digits_value_def Let_def)


theorem condition_priority_witness:
  "str_contains ''age > 25'' ''((age > 25) AND (age < 30))''
   \<and> str_contains ''age < 30'' ''((age > 25) AND (age < 30))''
   \<and> evaluate_condition (user_row 20) users_schema ''((age > 25) AND (age < 30))''
   \<and> \<not> str_contains ''age > 25'' ''((age < 30) AND (id = 7))''
   \<and> str_contains ''age < 30'' ''((age < 30) AND (id = 7))''
   \<and> str_contains ''id = '' ''((age < 30) AND (id = 7))''
   \<and> evaluate_condition (user_row 5) users_schema ''((age < 30) AND (id = 7))''
   \<and> \<not> str_contains ''age > 25'' ''(id = 7)''
   \<and> \<not> str_contains ''age < 30'' ''(id = 7)''
   \<and> str_contains ''id = '' ''(id = 7)''
   \<and> evaluate_condition (user_row 7) users_schema ''(id = 7)''"
proof -
  have a: "evaluate_condition (user_row 20) users_schema ''((age > 25) AND (age < 30))''"
    using condition_priority [of "''((age > 25) AND (age < 30))''" "user_row 20" users_schema] cond_both_ages
    by (simp add: users_age)
  have b: "evaluate_condition (user_row 5) users_schema ''((age < 30) AND (id = 7))''"
    using condition_priority [of "''((age < 30) AND (id = 7))''" "user_row 5" users_schema] cond_age_and_id
    by (simp add: users_age)
  have c: "evaluate_condition (user_row 7) users_schema ''(id = 7)''"
    using condition_priority [of "''(id = 7)''" "user_row 7" users_schema] cond_id_only stoi7
    by (simp add: users_id)
  show ?thesis
    using a b c cond_both_ages cond_age_and_id cond_id_only by (intro conjI)
qed

lemma resolve_none:
  "\<forall>col \<in> set columns. get_column_index child_schema col = None \<Longrightarrow>
   fold (\<lambda>col (column_indices, result_schema).
             case get_column_index child_schema col of
               None \<Rightarrow> (column_indices, result_schema)
             | Some idx \<Rightarrow> (column_indices @ [idx],
                            add_column col (column_types child_schema ! idx) result_schema))
       columns acc = acc"
  by (induction columns arbitrary: acc) (auto split: prod.splits)

lemma project_rows_nil: "map (project_row []) xs = replicate (length xs) []"
  by (induction xs) (simp_all add: project_row_def)

lemma project_no_columns:
  assumes "execute tm ch = Inr rs"
    and "ps \<noteq> [''*'']"
    and "\<forall>col \<in> set (parse_projections ps). get_column_index (rs_schema rs) col = None"
  shows "execute tm (PlanNode (ProjectNode ps) sch st co (ch # rest))
           = Inr \<lparr>rs_schema = empty_schema, rs_rows = replicate (length (rs_rows rs)) []\<rparr>"
proof -
  have "resolve_columns (rs_schema rs) (parse_projections ps) = ([], empty_schema)"
    unfolding resolve_columns_def using assms(3) by (rule resolve_none)
  then show ?thesis
    using assms(1,2) by (simp add: project_result_def project_rows_nil)
qed

lemma salary_unknown:
  "\<forall>col \<in> set (parse_projections [''salary'']).
     get_column_index (rs_schema \<lparr>rs_schema = users_schema, rs_rows = map user_row [1..1000]\<rparr>) col
       = None"
  by (simp add: parse_projections_def find_char_def get_column_index_def users_schema_def
      add_column_def empty_schema_def)

lemma project_salary_users:
  "execute sample_data (PlanNode (ProjectNode [''salary'']) sch st co [scan_of ''users''])
     = Inr \<lparr>rs_schema = empty_schema, rs_rows = replicate 1000 []\<rparr>"
proof -
  have "execute sample_data (PlanNode (ProjectNode [''salary'']) sch st co [scan_of ''users''])
     = Inr \<lparr>rs_schema = empty_schema,
            rs_rows = replicate (length (rs_rows \<lparr>rs_schema = users_schema,
                                                  rs_rows = map user_row [1..1000]\<rparr>)) []\<rparr>"
    using scan_users _ salary_unknown by (rule project_no_columns) simp
  then show ?thesis by simp
qed

text \<open>
  C8, as stated, fails: a projection on the single unknown column \<open>salary\<close> over the
  sample users table does not fail; it returns 1000 empty rows under an empty schema.
\<close>

theorem project_unknown_column_counterexample:
  "execute sample_data (unary_of (ProjectNode [''salary'']) (scan_of ''users''))
     = Inr \<lparr>rs_schema = empty_schema, rs_rows = replicate 1000 []\<rparr>"
  unfolding unary_of_def by (rule project_salary_users)

text \<open>
  C8, amended: executing a Project node with a non-wildcard projection list in which no
  projection resolves to a column of the child schema is not an error: when the child
  returns a result, the execute call returns a ResultSet with an empty schema and one
  empty row for each row of the child.
\<close>

theorem project_without_survivors:
  assumes "execute tm ch = Inr rs"
    and "ps \<noteq> [''*'']"
    and "\<forall>col \<in> set (parse_projections ps). get_column_index (rs_schema rs) col = None"
  shows "execute tm (PlanNode (ProjectNode ps) sch st co (ch # rest))
           = Inr \<lparr>rs_schema = empty_schema, rs_rows = replicate (length (rs_rows rs)) []\<rparr>"
  using assms by (rule project_no_columns)

theorem project_without_survivors_witness:
  "execute sample_data (scan_of ''users'')
     = Inr \<lparr>rs_schema = users_schema, rs_rows = map user_row [1..1000]\<rparr>
   \<and> [''salary''] \<noteq> [''*'']
   \<and> parse_projections [''salary''] = [''salary'']
   \<and> get_column_index users_schema ''salary'' = None
   \<and> execute sample_data (PlanNode (ProjectNode [''salary'']) [] (Statistics 0 0 1) (CostEstimate 0 0) [scan_of ''users''])
       = Inr \<lparr>rs_schema = empty_schema,
              rs_rows = replicate (length (rs_rows \<lparr>rs_schema = users_schema,
                                                    rs_rows = map user_row [1..1000]\<rparr>)) []\<rparr>"
proof -
  have ne: "[''salary''] \<noteq> [''*'']" by simp
  have pp: "parse_projections [''salary''] = [''salary'']"
    by (simp add: parse_projections_def find_char_def)
  have gc: "get_column_index users_schema ''salary'' = None"
    by (simp add: get_column_index_def users_schema_def add_column_def empty_schema_def)
  have "execute sample_data (PlanNode (ProjectNode [''salary'']) [] (Statistics 0 0 1) (CostEstimate 0 0) [scan_of ''users''])
       = Inr \<lparr>rs_schema = empty_schema,
              rs_rows = replicate (length (rs_rows \<lparr>rs_schema = users_schema,
                                                    rs_rows = map user_row [1..1000]\<rparr>)) []\<rparr>"
    using scan_users ne salary_unknown by (rule project_without_survivors)
  with scan_users ne pp gc show ?thesis
    by (intro conjI)
qed

subsection \<open>Per-row failures\<close>

lemma fold_build_filter:
  "fold (\<lambda>r ht. case get_int r 0 of
                     None \<Rightarrow> ht
                   | Some key \<Rightarrow> ht(key \<mapsto> (case ht key of None \<Rightarrow> [] | Some rs \<Rightarrow> rs) @ [r]))
     (filter (\<lambda>x. get_int x 0 \<noteq> None) xs) acc
   = fold (\<lambda>r ht. case get_int r 0 of
                     None \<Rightarrow> ht
                   | Some key \<Rightarrow> ht(key \<mapsto> (case ht key of None \<Rightarrow> [] | Some rs \<Rightarrow> rs) @ [r]))
     xs acc"
  by (induction xs arbitrary: acc) auto

lemma hash_build_skips: "hash_build (filter (\<lambda>x. get_int x 0 \<noteq> None) xs) = hash_build xs"
  unfolding hash_build_def by (rule fold_build_filter)

lemma hash_probe_skips: "hash_probe ht (filter (\<lambda>x. get_int x 1 \<noteq> None) ys) = hash_probe ht ys"
  unfolding hash_probe_def by (induction ys) auto

lemma read_int_column_None_iff:
  "read_int_column r s n = None \<longleftrightarrow>
     (case get_column_index s n of
        None \<Rightarrow> True
      | Some idx \<Rightarrow> length r \<le> idx \<or> (\<exists>str. r ! idx = StrV str))"
  by (auto simp add: read_int_column_def get_int_def split: option.splits any_value.splits)

text \<open>
  The part of C7 that the code keeps, in Filter and in the hash join: a failed read of
  the column a recognised predicate needs (\<open>read_int_column\<close> is
  \<open>None\<close>: the column is not in the schema, its index is beyond the row, or the value
  is not an \<open>int\<close>) makes \<open>evaluate_condition\<close> reject the row instead of raising, so a
  Filter over a child that returns a result returns a result itself, whatever the rows
  are. A hash join whose children return results returns a result too, and it is the
  one obtained from the rows whose key can be read: a left row without an \<open>int\<close> in
  column 0 and a right row without an \<open>int\<close> in column 1 are skipped.
\<close>

theorem soft_failures_absorbed:
  "((str_contains ''age > 25'' c \<or> str_contains ''age < 30'' c) \<and> read_int_column r s ''age'' = None
       \<longrightarrow> \<not> evaluate_condition r s c)
   \<and> (\<not> str_contains ''age > 25'' c \<and> \<not> str_contains ''age < 30'' c \<and> str_contains ''id = '' c
        \<and> read_int_column r s ''id'' = None
       \<longrightarrow> \<not> evaluate_condition r s c)
   \<and> (execute tm ch = Inr rs
       \<longrightarrow> execute tm (PlanNode (FilterNode c) sch st co (ch # rest))
            = Inr \<lparr>rs_schema = rs_schema rs,
                   rs_rows = filter (\<lambda>x. evaluate_condition x (rs_schema rs) c) (rs_rows rs)\<rparr>)
   \<and> (execute tm lp = Inr lrs \<and> execute tm rp = Inr rrs
       \<longrightarrow> execute tm (PlanNode (HashJoinNode jt jc) sch' st' co' (lp # rp # rest'))
            = Inr \<lparr>rs_schema = join_schema (rs_schema lrs) (rs_schema rrs),
                   rs_rows = hash_probe (hash_build (filter (\<lambda>x. get_int x 0 \<noteq> None) (rs_rows lrs)))
                               (filter (\<lambda>x. get_int x 1 \<noteq> None) (rs_rows rrs))\<rparr>)"
proof (intro conjI impI)
  assume "(str_contains ''age > 25'' c \<or> str_contains ''age < 30'' c) \<and> read_int_column r s ''age'' = None"
  then show "\<not> evaluate_condition r s c"
    by (auto simp add: evaluate_condition_def)
next
  assume "\<not> str_contains ''age > 25'' c \<and> \<not> str_contains ''age < 30'' c \<and> str_contains ''id = '' c
        \<and> read_int_column r s ''id'' = None"
  then show "\<not> evaluate_condition r s c"
    by (simp add: evaluate_condition_def Let_def)
next
  assume "execute tm ch = Inr rs"
  then show "execute tm (PlanNode (FilterNode c) sch st co (ch # rest))
            = Inr \<lparr>rs_schema = rs_schema rs,
                   rs_rows = filter (\<lambda>x. evaluate_condition x (rs_schema rs) c) (rs_rows rs)\<rparr>"
    by (simp add: filter_result_def)
next
  assume "execute tm lp = Inr lrs \<and> execute tm rp = Inr rrs"
  then show "execute tm (PlanNode (HashJoinNode jt jc) sch' st' co' (lp # rp # rest'))
            = Inr \<lparr>rs_schema = join_schema (rs_schema lrs) (rs_schema rrs),
                   rs_rows = hash_probe (hash_build (filter (\<lambda>x. get_int x 0 \<noteq> None) (rs_rows lrs)))
                               (filter (\<lambda>x. get_int x 1 \<noteq> None) (rs_rows rrs))\<rparr>"
    unfolding hash_build_skips hash_probe_skips by (simp add: join_rows_def)
qed

lemma mixed_people:
  "mixed_data ''people'' = Some \<lparr>t_name = ''people'', t_schema = people_schema,
     t_rows = [[IntV 1, IntV 30], [IntV 2, StrV ''old''], [IntV 3], [StrV ''four'', IntV 40]]\<rparr>"
  by (simp add: mixed_data_def add_row_def create_table_def)

lemma mixed_visits:
  "mixed_data ''visits'' = Some \<lparr>t_name = ''visits'', t_schema = visits_schema,
     t_rows = [[IntV 10, IntV 1], [IntV 11, StrV ''nobody''], [IntV 12], [IntV 13, IntV 3]]\<rparr>"
  by (simp add: mixed_data_def add_row_def create_table_def)


lemma scan_people:
  "execute mixed_data (scan_of ''people'')
     = Inr \<lparr>rs_schema = people_schema,
            rs_rows = [[IntV 1, IntV 30], [IntV 2, StrV ''old''], [IntV 3], [StrV ''four'', IntV 40]]\<rparr>"
  by (simp add: scan_of_def new_node_def mixed_people)

lemma scan_visits:
  "execute mixed_data (scan_of ''visits'')
     = Inr \<lparr>rs_schema = visits_schema,
            rs_rows = [[IntV 10, IntV 1], [IntV 11, StrV ''nobody''], [IntV 12], [IntV 13, IntV 3]]\<rparr>"
  by (simp add: scan_of_def new_node_def mixed_visits)

lemma people_reads:
  "read_int_column [IntV 2, StrV ''old''] people_schema ''age'' = None"
  "read_int_column [IntV 3] people_schema ''age'' = None"
  "read_int_column [StrV ''four'', IntV 40] people_schema ''id'' = None"
  "read_int_column [IntV 1, IntV 30] people_schema ''age'' = Some 30"
  "read_int_column [StrV ''four'', IntV 40] people_schema ''age'' = Some 40"
  by (simp_all add: read_int_column_def get_column_index_def people_schema_def add_column_def
      empty_schema_def get_int_def)

lemma witness_conditions:
  "str_contains ''age > 25'' ''age > 25''"
  "\<not> str_contains ''age > 25'' ''id = 1''"
  "\<not> str_contains ''age < 30'' ''id = 1''"
  "str_contains ''id = '' ''id = 1''"
  by (simp_all add: str_contains_def)

theorem soft_failures_absorbed_witness:
  "(str_contains ''age > 25'' ''age > 25'' \<or> str_contains ''age < 30'' ''age > 25'')
   \<and> read_int_column [IntV 2, StrV ''old''] people_schema ''age'' = None
   \<and> \<not> evaluate_condition [IntV 2, StrV ''old''] people_schema ''age > 25''
   \<and> read_int_column [IntV 3] people_schema ''age'' = None
   \<and> \<not> evaluate_condition [IntV 3] people_schema ''age > 25''
   \<and> \<not> str_contains ''age > 25'' ''id = 1'' \<and> \<not> str_contains ''age < 30'' ''id = 1''
   \<and> str_contains ''id = '' ''id = 1''
   \<and> read_int_column [StrV ''four'', IntV 40] people_schema ''id'' = None
   \<and> \<not> evaluate_condition [StrV ''four'', IntV 40] people_schema ''id = 1''
   \<and> execute mixed_data (scan_of ''people'')
       = Inr \<lparr>rs_schema = people_schema,
              rs_rows = [[IntV 1, IntV 30], [IntV 2, StrV ''old''], [IntV 3], [StrV ''four'', IntV 40]]\<rparr>
   \<and> execute mixed_data (scan_of ''visits'')
       = Inr \<lparr>rs_schema = visits_schema,
              rs_rows = [[IntV 10, IntV 1], [IntV 11, StrV ''nobody''], [IntV 12], [IntV 13, IntV 3]]\<rparr>
   \<and> execute mixed_data (unary_of (FilterNode ''age > 25'') (scan_of ''people''))
       = Inr \<lparr>rs_schema = people_schema,
              rs_rows = [[IntV 1, IntV 30], [StrV ''four'', IntV 40]]\<rparr>
   \<and> execute mixed_data (join_of (HashJoinNode INNER ''people.id = visits.person_id'')
         (scan_of ''people'') (scan_of ''visits''))
       = Inr \<lparr>rs_schema = \<lparr>column_names = [''id'', ''age'', ''id'', ''person_id''],
                            column_types = [''int'', ''int'', ''int'', ''int'']\<rparr>,
              rs_rows = [[IntV 1, IntV 30, IntV 10, IntV 1], [IntV 3, IntV 13, IntV 3]]\<rparr>"
proof -
  note main = soft_failures_absorbed
  have a: "\<not> evaluate_condition [IntV 2, StrV ''old''] people_schema ''age > 25''"
    using main [where c = "''age > 25''" and r = "[IntV 2, StrV ''old'']" and s = people_schema]
      witness_conditions people_reads by blast
  have b: "\<not> evaluate_condition [IntV 3] people_schema ''age > 25''"
    using main [where c = "''age > 25''" and r = "[IntV 3]" and s = people_schema]
      witness_conditions people_reads by blast
  have c: "\<not> evaluate_condition [StrV ''four'', IntV 40] people_schema ''id = 1''"
    using main [where c = "''id = 1''" and r = "[StrV ''four'', IntV 40]" and s = people_schema]
      witness_conditions people_reads by blast
  have "execute mixed_data (PlanNode (FilterNode ''age > 25'') [] (Statistics 0 0 1) (CostEstimate 0 0)
           (scan_of ''people'' # []))
       = Inr \<lparr>rs_schema = rs_schema \<lparr>rs_schema = people_schema,
              rs_rows = [[IntV 1, IntV 30], [IntV 2, StrV ''old''], [IntV 3], [StrV ''four'', IntV 40]]\<rparr>,
             rs_rows = filter (\<lambda>x. evaluate_condition x (rs_schema \<lparr>rs_schema = people_schema,
              rs_rows = [[IntV 1, IntV 30], [IntV 2, StrV ''old''], [IntV 3], [StrV ''four'', IntV 40]]\<rparr>) ''age > 25'')
                (rs_rows \<lparr>rs_schema = people_schema,
              rs_rows = [[IntV 1, IntV 30], [IntV 2, StrV ''old''], [IntV 3], [StrV ''four'', IntV 40]]\<rparr>)\<rparr>"
    using main [where tm = mixed_data and ch = "scan_of ''people''" and c = "''age > 25''"]
      scan_people by blast
  then have d: "execute mixed_data (unary_of (FilterNode ''age > 25'') (scan_of ''people''))
       = Inr \<lparr>rs_schema = people_schema,
              rs_rows = [[IntV 1, IntV 30], [StrV ''four'', IntV 40]]\<rparr>"
    using a b by (simp add: unary_of_def evaluate_condition_def witness_conditions people_reads)
  have "execute mixed_data (PlanNode (HashJoinNode INNER ''people.id = visits.person_id'') []
           (Statistics 0 0 1) (CostEstimate 0 0) (scan_of ''people'' # scan_of ''visits'' # []))
       = Inr \<lparr>rs_schema = join_schema (rs_schema \<lparr>rs_schema = people_schema,
              rs_rows = [[IntV 1, IntV 30], [IntV 2, StrV ''old''], [IntV 3], [StrV ''four'', IntV 40]]\<rparr>)
                (rs_schema \<lparr>rs_schema = visits_schema,
            rs_rows = [[IntV 10, IntV 1], [IntV 11, StrV ''nobody''], [IntV 12], [IntV 13, IntV 3]]\<rparr>),
             rs_rows = hash_probe (hash_build (filter (\<lambda>x. get_int x 0 \<noteq> None) (rs_rows \<lparr>rs_schema = people_schema,
              rs_rows = [[IntV 1, IntV 30], [IntV 2, StrV ''old''], [IntV 3], [StrV ''four'', IntV 40]]\<rparr>)))
                               (filter (\<lambda>x. get_int x 1 \<noteq> None) (rs_rows \<lparr>rs_schema = visits_schema,
            rs_rows = [[IntV 10, IntV 1], [IntV 11, StrV ''nobody''], [IntV 12], [IntV 13, IntV 3]]\<rparr>))\<rparr>"
    using main [where tm = mixed_data and lp = "scan_of ''people''" and rp = "scan_of ''visits''"]
      scan_people scan_visits by blast
  then have e: "execute mixed_data (join_of (HashJoinNode INNER ''people.id = visits.person_id'')
         (scan_of ''people'') (scan_of ''visits''))
       = Inr \<lparr>rs_schema = \<lparr>column_names = [''id'', ''age'', ''id'', ''person_id''],
                            column_types = [''int'', ''int'', ''int'', ''int'']\<rparr>,
              rs_rows = [[IntV 1, IntV 30, IntV 10, IntV 1], [IntV 3, IntV 13, IntV 3]]\<rparr>"
    by (simp add: join_of_def join_schema_def people_schema_def visits_schema_def add_column_def
        empty_schema_def hash_probe_def hash_build_def get_int_def upt_rec)
  show ?thesis
    using a b c d e witness_conditions people_reads scan_people scan_visits by (intro conjI disjI1)
qed

subsection \<open>Unreadable keys in the sort-merge join\<close>

lemma late_match_scans:
  "execute late_match_data (scan_of ''people'')
     = Inr \<lparr>rs_schema = people_schema, rs_rows = [[IntV 1, IntV 30]]\<rparr>"
  "execute late_match_data (scan_of ''visits'')
     = Inr \<lparr>rs_schema = visits_schema,
            rs_rows = [[IntV 11, StrV ''nobody''], [IntV 10, IntV 1]]\<rparr>"
  by (simp_all add: scan_of_def new_node_def late_match_data_def add_row_def create_table_def)

lemma people_visits_schema:
  "join_schema people_schema visits_schema
     = \<lparr>column_names = [''id'', ''age'', ''id'', ''person_id''],
        column_types = [''int'', ''int'', ''int'', ''int'']\<rparr>"
  by (simp add: join_schema_def people_schema_def visits_schema_def add_column_def
      empty_schema_def upt_rec)

lemma late_match_sorted:
  "std_sort (key_less 0) [[IntV 1, IntV 30]] = [[IntV 1, IntV 30]]"
  "std_sort (key_less 1) [[IntV 11, StrV ''nobody''], [IntV 10, IntV 1]]
     = [[IntV 11, StrV ''nobody''], [IntV 10, IntV 1]]"
  by (simp_all add: std_sort_def key_less_def get_int_def)

lemma late_match_sort_merge:
  "sort_merge_rows [[IntV 1, IntV 30]] [[IntV 11, StrV ''nobody''], [IntV 10, IntV 1]] = []"
  unfolding sort_merge_rows_def late_match_sorted by (simp add: get_int_def)

lemma late_match_hash:
  "hash_probe (hash_build [[IntV 1, IntV 30]]) [[IntV 11, StrV ''nobody''], [IntV 10, IntV 1]]
     = [[IntV 1, IntV 30, IntV 10, IntV 1]]"
  by (simp add: hash_probe_def hash_build_def get_int_def)

text \<open>
  C7 at a sort-merge join whose right input holds a row with an unreadable key in front
  of a matching row: the \<open>catch\<close> block advances the left cursor whichever read threw,
  so the unreadable right row is not skipped, the only left row is passed over and the
  join returns no row. The hash join over the same inputs skips the unreadable row and
  returns the match. \<open>std::sort\<close> has nothing to reorder here: the left input has one
  row, and on the two right rows the comparator is false both ways.
\<close>

theorem sort_merge_unreadable_right_key:
  "execute late_match_data
      (join_of (SortMergeJoinNode INNER ''people.id = visits.person_id'')
         (scan_of ''people'') (scan_of ''visits''))
     = Inr \<lparr>rs_schema = \<lparr>column_names = [''id'', ''age'', ''id'', ''person_id''],
                          column_types = [''int'', ''int'', ''int'', ''int'']\<rparr>,
            rs_rows = []\<rparr>
   \<and> execute late_match_data
      (join_of (HashJoinNode INNER ''people.id = visits.person_id'')
         (scan_of ''people'') (scan_of ''visits''))
     = Inr \<lparr>rs_schema = \<lparr>column_names = [''id'', ''age'', ''id'', ''person_id''],
                          column_types = [''int'', ''int'', ''int'', ''int'']\<rparr>,
            rs_rows = [[IntV 1, IntV 30, IntV 10, IntV 1]]\<rparr>"
  unfolding join_of_def execute.simps late_match_scans
  by (simp only: sum.case result_set.simps join_rows_def node_data.case people_visits_schema
      late_match_sort_merge late_match_hash simp_thms)

section \<open>Properties of the optimizer\<close>

lemma generate_all_plans_length:
  "length (generate_all_plans opt stmt) = (if length (joins stmt) = 1 then 6 else 3)"
  by (simp add: generate_all_plans_def Let_def join_algorithms_def)

lemma generate_all_plans_no_join:
  "joins stmt = [] \<Longrightarrow>
   generate_all_plans opt stmt
     = replicate 3 (make_candidate opt (build_plan (opt_plan_builder opt) stmt))"
  by (simp add: generate_all_plans_def Let_def join_algorithms_def build_plan_def
      left_deep_joins_def numeral_3_eq_3)

text \<open>
  C6 at the statement \<open>SELECT name, age FROM users WHERE age > 25\<close>, which has no join:
  \<open>generate_all_plans\<close> returns three candidates, each of them the one plan of
  \<open>build_plan\<close> with its cost, where \<open>PlanBuilder::generate_join_orders\<close> returns a single
  plan. For the one-join statement of the tests it returns six candidates.
\<close>

theorem generate_all_plans_zero_joins:
  "generate_all_plans QueryOptimizer simple_stmt
     = replicate 3 (make_candidate QueryOptimizer (build_plan PlanBuilder simple_stmt))
   \<and> length (generate_all_plans QueryOptimizer simple_stmt) = 3
   \<and> length (generate_join_orders PlanBuilder simple_stmt) = 1
   \<and> length (generate_all_plans QueryOptimizer join_stmt) = 6"
proof (intro conjI)
  have j: "joins simple_stmt = []" by (simp add: simple_stmt_def)
  have pb: "opt_plan_builder QueryOptimizer = PlanBuilder" by (simp add: QueryOptimizer_def)
  show "generate_all_plans QueryOptimizer simple_stmt
     = replicate 3 (make_candidate QueryOptimizer (build_plan PlanBuilder simple_stmt))"
    using generate_all_plans_no_join [OF j, of QueryOptimizer] by (simp only: pb)
  show "length (generate_all_plans QueryOptimizer simple_stmt) = 3"
    by (simp add: generate_all_plans_length j)
  show "length (generate_join_orders PlanBuilder simple_stmt) = 1"
    by (simp add: generate_join_orders_def j)
  show "length (generate_all_plans QueryOptimizer join_stmt) = 6"
    by (simp add: generate_all_plans_length join_stmt_def)
qed

section \<open>Row counts of the three join operators\<close>

declare upto_rec_numeral [simp del]

lemma length_nested_loop_rows:
  "length (nested_loop_rows ls rs) = length ls * length rs"
  by (induction ls) (simp_all add: nested_loop_rows_def)

lemma fold_hash_build:
  "fold (\<lambda>r ht. case get_int r 0 of
                     None \<Rightarrow> ht
                   | Some key \<Rightarrow> ht(key \<mapsto> (case ht key of None \<Rightarrow> [] | Some rs \<Rightarrow> rs) @ [r]))
     ls acc k
   = (case acc k of
        None \<Rightarrow> (if filter (\<lambda>l. get_int l 0 = Some k) ls = [] then None
                  else Some (filter (\<lambda>l. get_int l 0 = Some k) ls))
      | Some xs \<Rightarrow> Some (xs @ filter (\<lambda>l. get_int l 0 = Some k) ls))"
proof (induction ls arbitrary: acc)
  case Nil
  then show ?case by (simp split: option.splits)
next
  case (Cons l ls)
  show ?case
    by (cases "get_int l 0") (auto simp add: Cons.IH split: option.splits)
qed

lemma hash_build_lookup:
  "hash_build ls k
     = (if filter (\<lambda>l. get_int l 0 = Some k) ls = [] then None
        else Some (filter (\<lambda>l. get_int l 0 = Some k) ls))"
  unfolding hash_build_def by (simp add: fold_hash_build)

lemma length_hash_probe:
  "length (hash_probe (hash_build ls) rs)
     = sum_list (map (\<lambda>r. case get_int r 1 of
                             None \<Rightarrow> 0
                           | Some k \<Rightarrow> length (filter (\<lambda>l. get_int l 0 = Some k) ls)) rs)"
  by (induction rs) (simp_all add: hash_probe_def hash_build_lookup split: option.splits)

lemma mset_insert_sorted: "mset (insert_sorted before x ys) = add_mset x (mset ys)"
  by (induction ys) simp_all

lemma mset_std_sort: "mset (std_sort before xs) = mset xs"
  by (induction xs) (simp_all add: std_sort_def mset_insert_sorted)

lemma set_insert_sorted: "set (insert_sorted before x ys) = insert x (set ys)"
  using mset_insert_sorted [of before x ys, THEN arg_cong, of set_mset] by simp

lemma sorted_insert_sorted:
  assumes "get_int x k \<noteq> None" and "\<forall>y \<in> set ys. get_int y k \<noteq> None"
    and "sorted (map (\<lambda>r. the (get_int r k)) ys)"
  shows "sorted (map (\<lambda>r. the (get_int r k)) (insert_sorted (key_less k) x ys))"
  using assms
proof (induction ys)
  case Nil
  then show ?case by simp
next
  case (Cons y ys)
  then show ?case
    by (auto simp add: key_less_def set_insert_sorted)
qed

lemma sorted_std_sort:
  assumes "\<forall>x \<in> set xs. get_int x k \<noteq> None"
  shows "sorted (map (\<lambda>r. the (get_int r k)) (std_sort (key_less k) xs))"
  using assms
proof (induction xs)
  case Nil
  then show ?case by (simp add: std_sort_def)
next
  case (Cons x xs)
  have s: "set (std_sort (key_less k) xs) = set xs"
    using mset_std_sort [of "key_less k" xs, THEN arg_cong, of set_mset] by simp
  have "sorted (map (\<lambda>r. the (get_int r k)) (insert_sorted (key_less k) x (std_sort (key_less k) xs)))"
    using Cons by (intro sorted_insert_sorted) (simp_all add: s)
  then show ?case by (simp add: std_sort_def)
qed

lemma length_merge_rows:
  assumes "\<forall>l \<in> set ls. get_int l 0 \<noteq> None" and "\<forall>r \<in> set rs. get_int r 1 \<noteq> None"
    and "sorted_wrt (<) (map (\<lambda>l. the (get_int l 0)) ls)"
    and "sorted (map (\<lambda>r. the (get_int r 1)) rs)"
  shows "length (merge_rows ls rs)
           = length (filter (\<lambda>r. the (get_int r 1) \<in> (\<lambda>l. the (get_int l 0)) ` set ls) rs)"
  using assms
proof (induction ls rs rule: merge_rows.induct)
  case (1 rs)
  then show ?case by simp
next
  case (2 l ls)
  then show ?case by simp
next
  case (3 l ls r rs)
  from "3.prems" obtain a b where a: "get_int l 0 = Some a" and b: "get_int r 1 = Some b"
    by auto
  have la: "\<forall>x \<in> set ls. a < the (get_int x 0)"
    using "3.prems"(3) a by simp
  have rb: "\<forall>y \<in> set rs. b \<le> the (get_int y 1)"
    using "3.prems"(4) b by simp
  consider "a = b" | "a < b" | "b < a" by linarith
  then show ?case
  proof cases
    case 1
    have "length (merge_rows (l # ls) rs)
        = length (filter (\<lambda>r. the (get_int r 1) \<in> (\<lambda>l. the (get_int l 0)) ` set (l # ls)) rs)"
      using "3.IH"(3) [OF a b 1] "3.prems" by simp
    then show ?thesis using a b 1 by simp
  next
    case 2
    have ih: "length (merge_rows ls (r # rs))
        = length (filter (\<lambda>r. the (get_int r 1) \<in> (\<lambda>l. the (get_int l 0)) ` set ls) (r # rs))"
      using "3.IH"(4) [OF a b] 2 "3.prems" by simp
    have "filter (\<lambda>r. the (get_int r 1) \<in> (\<lambda>l. the (get_int l 0)) ` set (l # ls)) (r # rs)
        = filter (\<lambda>r. the (get_int r 1) \<in> (\<lambda>l. the (get_int l 0)) ` set ls) (r # rs)"
      using a b 2 rb by (intro filter_cong) auto
    then show ?thesis using a b 2 ih by simp
  next
    case 3
    have ih: "length (merge_rows (l # ls) rs)
        = length (filter (\<lambda>r. the (get_int r 1) \<in> (\<lambda>l. the (get_int l 0)) ` set (l # ls)) rs)"
      using "3.IH"(5) [OF a b] 3 "3.prems" by simp
    have "the (get_int r 1) \<notin> (\<lambda>l. the (get_int l 0)) ` set (l # ls)"
      using a b 3 la by auto
    then show ?thesis using a b 3 ih by simp
  qed
qed

lemma user_row_key: "get_int (user_row i) 0 = Some i"
  by (simp add: user_row_def get_int_def)

lemma order_row_key: "get_int (order_row j) 1 = Some (j mod 1000 + 1)"
  by (simp add: order_row_def get_int_def)

lemma order_row_key_Suc: "get_int (order_row j) (Suc 0) = Some (j mod 1000 + 1)"
  using order_row_key [of j] by simp

lemma length_filter_distinct:
  "distinct xs \<Longrightarrow> length (filter (\<lambda>i. i = k) xs) = (if k \<in> set xs then 1 else 0)"
  by (induction xs) auto

lemma users_with_key:
  assumes "1 \<le> k" and "k \<le> 1000"
  shows "length (filter (\<lambda>l. get_int l 0 = Some k) (map user_row [1..1000])) = 1"
proof -
  have "(\<lambda>l. get_int l 0 = Some k) \<circ> user_row = (\<lambda>i. i = k)"
    by (rule ext) (simp add: user_row_key)
  then have "length (filter (\<lambda>l. get_int l 0 = Some k) (map user_row [1..1000]))
               = length (filter (\<lambda>i. i = k) [1..1000])"
    by (simp only: filter_map length_map)
  also have "\<dots> = 1"
    using assms by (simp add: length_filter_distinct)
  finally show ?thesis .
qed

lemma sum_list_all_one:
  "\<forall>x \<in> set xs. f x = (1::nat) \<Longrightarrow> sum_list (map f xs) = length xs"
  by (induction xs) simp_all

lemma hash_join_sample_size:
  "length (hash_probe (hash_build (map user_row [1..1000])) (map order_row [1..5000])) = 5000"
proof -
  have "\<forall>r \<in> set (map order_row [1..5000]).
          (case get_int r 1 of
             None \<Rightarrow> 0
           | Some k \<Rightarrow> length (filter (\<lambda>l. get_int l 0 = Some k) (map user_row [1..1000]))) = 1"
  proof
    fix r assume "r \<in> set (map order_row [1..5000])"
    then obtain j where r: "r = order_row j" by auto
    have "1 \<le> j mod 1000 + 1" "j mod 1000 + 1 \<le> 1000"
      by simp_all
    then show "(case get_int r 1 of
             None \<Rightarrow> 0
           | Some k \<Rightarrow> length (filter (\<lambda>l. get_int l 0 = Some k) (map user_row [1..1000]))) = 1"
      unfolding r order_row_key by (simp only: option.case users_with_key)
  qed
  then have "sum_list (map (\<lambda>r. case get_int r 1 of
             None \<Rightarrow> 0
           | Some k \<Rightarrow> length (filter (\<lambda>l. get_int l 0 = Some k) (map user_row [1..1000])))
         (map order_row [1..5000])) = length (map order_row [1..5000])"
    by (rule sum_list_all_one)
  then show ?thesis
    unfolding length_hash_probe by simp
qed

lemma set_std_sort: "set (std_sort before xs) = set xs"
  using mset_std_sort [of before xs, THEN arg_cong, of set_mset] by simp

lemma length_std_sort: "length (std_sort before xs) = length xs"
  using mset_std_sort [of before xs, THEN arg_cong, of size] by simp

lemma length_sort_merge_rows:
  assumes uk: "\<forall>l \<in> set us. get_int l 0 \<noteq> None"
    and ok: "\<forall>r \<in> set os. get_int r 1 \<noteq> None"
    and d0: "distinct (map (\<lambda>l. the (get_int l 0)) us)"
    and m: "\<forall>r \<in> set os. the (get_int r 1) \<in> (\<lambda>l. the (get_int l 0)) ` set us"
  shows "length (sort_merge_rows us os) = length os"
proof -
  define ls where "ls = std_sort (key_less 0) us"
  define rs where "rs = std_sort (key_less 1) os"
  have lset: "set ls = set us"
    unfolding ls_def by (rule set_std_sort)
  have rset: "set rs = set os"
    unfolding rs_def by (rule set_std_sort)
  have "mset (map (\<lambda>l. the (get_int l 0)) ls) = mset (map (\<lambda>l. the (get_int l 0)) us)"
    unfolding ls_def by (simp only: mset_map mset_std_sort)
  then have "distinct (map (\<lambda>l. the (get_int l 0)) ls) = distinct (map (\<lambda>l. the (get_int l 0)) us)"
    by (rule mset_eq_imp_distinct_iff)
  then have dl: "distinct (map (\<lambda>l. the (get_int l 0)) ls)"
    using d0 by blast
  have "sorted (map (\<lambda>l. the (get_int l 0)) ls)"
    unfolding ls_def using uk by (rule sorted_std_sort)
  then have sl: "sorted_wrt (<) (map (\<lambda>l. the (get_int l 0)) ls)"
    using dl by (simp only: strict_sorted_iff)
  have sr: "sorted (map (\<lambda>r. the (get_int r 1)) rs)"
    unfolding rs_def using ok by (rule sorted_std_sort)
  have uk': "\<forall>l \<in> set ls. get_int l 0 \<noteq> None"
    using uk unfolding lset .
  have ok': "\<forall>r \<in> set rs. get_int r 1 \<noteq> None"
    using ok unfolding rset .
  have "length (merge_rows ls rs)
          = length (filter (\<lambda>r. the (get_int r 1) \<in> (\<lambda>l. the (get_int l 0)) ` set ls) rs)"
    using uk' ok' sl sr by (rule length_merge_rows)
  also have "filter (\<lambda>r. the (get_int r 1) \<in> (\<lambda>l. the (get_int l 0)) ` set ls) rs = rs"
  proof (rule filter_True)
    show "\<forall>r \<in> set rs. the (get_int r 1) \<in> (\<lambda>l. the (get_int l 0)) ` set ls"
      using m unfolding rset lset .
  qed
  also have "length rs = length os"
    unfolding rs_def by (rule length_std_sort)
  finally show ?thesis
    unfolding sort_merge_rows_def ls_def rs_def .
qed

lemma user_keys: "map (\<lambda>l. the (get_int l 0)) (map user_row xs) = xs"
  by (induction xs) (simp_all add: user_row_key)

lemma users_keys_some: "\<forall>l \<in> set (map user_row xs). get_int l 0 \<noteq> None"
  by (induction xs) (simp_all add: user_row_key)

lemma orders_keys_some: "\<forall>r \<in> set (map order_row ys). get_int r 1 \<noteq> None"
  by (induction ys) (simp_all add: order_row_key_Suc)

lemma orders_match:
  assumes "{1..1000} \<subseteq> set xs"
  shows "\<forall>r \<in> set (map order_row ys).
           the (get_int r 1) \<in> (\<lambda>l. the (get_int l 0)) ` set (map user_row xs)"
proof
  fix r assume "r \<in> set (map order_row ys)"
  then obtain j where r: "r = order_row j" by auto
  have "j mod 1000 + 1 \<in> {1..1000}" by simp
  then have "j mod 1000 + 1 \<in> set xs" using assms by blast
  then have "j mod 1000 + 1 \<in> set (map (\<lambda>l. the (get_int l 0)) (map user_row xs))"
    by (simp only: user_keys)
  then show "the (get_int r 1) \<in> (\<lambda>l. the (get_int l 0)) ` set (map user_row xs)"
    unfolding r order_row_key by (simp only: set_map option.sel)
qed

lemma length_sample: "length [1..1000::int] = 1000" "length [1..5000::int] = 5000"
  by (simp_all only: length_upto)

lemma sort_merge_sample_size:
  "length (sort_merge_rows (map user_row [1..1000]) (map order_row [1..5000])) = 5000"
proof -
  have d: "distinct (map (\<lambda>l. the (get_int l 0)) (map user_row [1..1000]))"
    unfolding user_keys by (rule distinct_upto)
  have s: "{1..1000} \<subseteq> set [1..1000::int]"
    by (simp only: set_upto subset_refl)
  have "length (sort_merge_rows (map user_row [1..1000]) (map order_row [1..5000]))
          = length (map order_row [1..5000])"
    using users_keys_some orders_keys_some d orders_match [OF s]
    by (rule length_sort_merge_rows)
  then show ?thesis
    by (simp only: length_map length_sample)
qed

lemma nested_loop_sample_size:
  "length (nested_loop_rows (map user_row [1..1000]) (map order_row [1..5000])) = 5000000"
  by (simp only: length_nested_loop_rows length_map length_sample)

text \<open>
  C3: over the sample dataset the join of users and orders on
  \<open>users.id = orders.user_id\<close> produces exactly 5000 rows when executed by the hash join
  and exactly 5000 rows when executed by the sort-merge join, while the nested-loop
  join, which evaluates no predicate, produces 1000 \<times> 5000 = 5000000 rows.
\<close>

theorem join_row_counts_sample:
  "result_size (execute sample_data
       (join_of (HashJoinNode INNER ''users.id = orders.user_id'')
          (scan_of ''users'') (scan_of ''orders''))) = Some 5000
   \<and> result_size (execute sample_data
       (join_of (SortMergeJoinNode INNER ''users.id = orders.user_id'')
          (scan_of ''users'') (scan_of ''orders''))) = Some 5000
   \<and> result_size (execute sample_data
       (join_of (NestedLoopJoinNode INNER ''users.id = orders.user_id'')
          (scan_of ''users'') (scan_of ''orders''))) = Some 5000000"
  unfolding join_of_def execute.simps scan_users scan_orders result_size_def
  by (simp only: sum.case result_set.simps join_rows_def node_data.case
      hash_join_sample_size sort_merge_sample_size nested_loop_sample_size simp_thms)

end
